theory Spec2Isabelle
  imports Complex_Main "HOL-Library.Multiset"
begin

section \<open>Values of the analysis scripts\<close>

text \<open>
  The scripts compute with Python and NumPy floats. A float is modelled as a real number
  or one of the three special values. Rounding error is modelled in the density
  statistics, where a guard compares a computed difference with 0, and in the numeric
  code of the correlation library; elsewhere arithmetic is exact, and overflow of the
  binary format is not modelled. A cell read with \<^verbatim>\<open>row.get(column)\<close> is \<open>None\<close> when
  the column is absent, and an empty CSV cell is \<open>Some NaN\<close>, as pandas reads it.
\<close>

datatype pyfloat = Finite real | PosInf | NegInf | NaN

datatype error = ValueError | KeyError | IndexError | ZeroDivisionError

text \<open>Python truthiness of a cell: \<^verbatim>\<open>None\<close> and zero are false, NaN and the infinities are true.\<close>

fun truthy :: "pyfloat option \<Rightarrow> bool" where
  "truthy None = False"
| "truthy (Some (Finite x)) = (x \<noteq> 0)"
| "truthy (Some PosInf) = True"
| "truthy (Some NegInf) = True"
| "truthy (Some NaN) = True"

text \<open>\<^verbatim>\<open>a <= v\<close> and \<^verbatim>\<open>v <= b\<close> for a finite bound and a float: every comparison with NaN is false.\<close>

fun le_bound :: "real \<Rightarrow> pyfloat \<Rightarrow> bool" where
  "le_bound a (Finite x) = (a \<le> x)"
| "le_bound a PosInf = True"
| "le_bound a NegInf = False"
| "le_bound a NaN = False"

fun bound_le :: "pyfloat \<Rightarrow> real \<Rightarrow> bool" where
  "bound_le (Finite x) b = (x \<le> b)"
| "bound_le PosInf b = False"
| "bound_le NegInf b = True"
| "bound_le NaN b = False"

text \<open>\<^verbatim>\<open>round(x, ndigits)\<close> on a float: to the nearest multiple of \<open>10^-ndigits\<close>, ties to even.\<close>

definition round_half_even :: "real \<Rightarrow> int" where
  "round_half_even x =
     (let f = \<lfloor>x\<rfloor>; d = x - of_int f
      in if d < 1 / 2 then f else if 1 / 2 < d then f + 1 else if even f then f else f + 1)"

definition py_round :: "real \<Rightarrow> nat \<Rightarrow> real" where
  "py_round x ndigits = of_int (round_half_even (x * 10 ^ ndigits)) / 10 ^ ndigits"

section \<open>Region catalog and entities\<close>

record bounds =
  lat_min :: real
  lat_max :: real
  lon_min :: real
  lon_max :: real

text \<open>
  A catalog entry of \<^verbatim>\<open>get_district_boundaries_and_areas\<close>. The growth analysis has
  bounds and area; the density map adds the population. The fields \<^verbatim>\<open>center\<close> and
  \<^verbatim>\<open>description\<close> only feed the rendering and are left out. A catalog is a Python dict,
  iterated in insertion order: an association list.
\<close>

record district_info =
  bounds :: bounds
  area_km2 :: real

record district_info_pop = district_info +
  population :: int

record winery =
  name :: string
  latitude :: "pyfloat option"
  longitude :: "pyfloat option"

record assigned_winery = winery +
  district :: string

text \<open>
  The box test of the assignment loop:
  \<^verbatim>\<open>bounds['lat_min'] <= lat <= bounds['lat_max'] and bounds['lon_min'] <= lon <= bounds['lon_max']\<close>
\<close>

definition in_bounds :: "bounds \<Rightarrow> pyfloat \<Rightarrow> pyfloat \<Rightarrow> bool" where
  "in_bounds b lat lon \<longleftrightarrow>
     le_bound (lat_min b) lat \<and> bound_le lat (lat_max b) \<and>
     le_bound (lon_min b) lon \<and> bound_le lon (lon_max b)"

section \<open>Region assignment\<close>

text \<open>
  The inner loop \<^verbatim>\<open>for district_name, district_info in districts.items(): ... break\<close>:
  the label written by the first iteration whose test succeeds, if any.
\<close>

fun first_match :: "(string \<times> 'a district_info_scheme) list \<Rightarrow> pyfloat \<Rightarrow> pyfloat \<Rightarrow> string option" where
  "first_match [] lat lon = None"
| "first_match ((district_name, info) # districts) lat lon =
     (if in_bounds (bounds info) lat lon then Some district_name
      else first_match districts lat lon)"

text \<open>
  One iteration of \<^verbatim>\<open>for idx, winery in df.iterrows()\<close>. The column starts as
  \<^verbatim>\<open>'Other'\<close> and is overwritten only under the guard \<^verbatim>\<open>if lat and lon\<close>.
\<close>

definition assign_label :: "(string \<times> 'a district_info_scheme) list \<Rightarrow> winery \<Rightarrow> string" where
  "assign_label districts w =
     (case (latitude w, longitude w) of
        (Some lat, Some lon) \<Rightarrow>
          (if truthy (Some lat) \<and> truthy (Some lon)
           then (case first_match districts lat lon of
                   Some district_name \<Rightarrow> district_name
                 | None \<Rightarrow> ''Other'')
           else ''Other'')
      | _ \<Rightarrow> ''Other'')"

definition assign_row :: "(string \<times> 'a district_info_scheme) list \<Rightarrow> winery \<Rightarrow> assigned_winery" where
  "assign_row districts w = winery.extend w \<lparr>district = assign_label districts w\<rparr>"

text \<open>
  The loop over the frame. Rows are addressed by their position, as the default index of a
  frame read from CSV does, so each iteration writes its own row only.
\<close>

fun assign_rows :: "(string \<times> 'a district_info_scheme) list \<Rightarrow> winery list \<Rightarrow> assigned_winery list" where
  "assign_rows districts [] = []"
| "assign_rows districts (w # df) = assign_row districts w # assign_rows districts df"


subsection \<open>The catalogs of the two scripts\<close>

text \<open>
  District names are the byte strings of the source files. The growth analysis spells the
  umlaut in UTF-8; the density map's source holds the bytes of a mis-decoded umlaut.
\<close>

definition Neukoelln :: string where
  "Neukoelln = ''Neuk'' @ [CHR 0xC3, CHR 0xB6] @ ''lln''"

definition Schoeneberg :: string where
  "Schoeneberg = ''Sch'' @ [CHR 0xC3, CHR 0xB6] @ ''neberg''"

definition Neukoelln_density :: string where
  "Neukoelln_density = ''Neuk'' @ [CHR 0xE2, CHR 0x88, CHR 0x9A, CHR 0xE2, CHR 0x88, CHR 0x82] @ ''lln''"

definition Schoeneberg_density :: string where
  "Schoeneberg_density = ''Sch'' @ [CHR 0xE2, CHR 0x88, CHR 0x9A, CHR 0xE2, CHR 0x88, CHR 0x82] @ ''neberg''"

definition box :: "real \<Rightarrow> real \<Rightarrow> real \<Rightarrow> real \<Rightarrow> bounds" where
  "box a b c d = \<lparr>lat_min = a, lat_max = b, lon_min = c, lon_max = d\<rparr>"

text \<open>\<^verbatim>\<open>get_district_boundaries_and_areas\<close> of the growth analysis.\<close>

definition get_district_boundaries_and_areas :: "(string \<times> district_info) list" where
  "get_district_boundaries_and_areas =
     [(''Prenzlauer Berg'', \<lparr>bounds = box 52.520 52.560 13.400 13.450, area_km2 = 10.9\<rparr>),
      (Neukoelln, \<lparr>bounds = box 52.450 52.500 13.400 13.470, area_km2 = 44.9\<rparr>),
      (''Friedrichshain'', \<lparr>bounds = box 52.500 52.530 13.420 13.480, area_km2 = 9.8\<rparr>),
      (''Kreuzberg'', \<lparr>bounds = box 52.490 52.520 13.380 13.420, area_km2 = 15.2\<rparr>),
      (''Wedding'', \<lparr>bounds = box 52.530 52.570 13.330 13.380, area_km2 = 9.5\<rparr>),
      (''Mitte'', \<lparr>bounds = box 52.500 52.550 13.350 13.420, area_km2 = 39.5\<rparr>),
      (''Charlottenburg'', \<lparr>bounds = box 52.490 52.530 13.280 13.350, area_km2 = 64.7\<rparr>),
      (Schoeneberg, \<lparr>bounds = box 52.460 52.500 13.330 13.380, area_km2 = 10.5\<rparr>),
      (''Tempelhof'', \<lparr>bounds = box 52.450 52.490 13.380 13.420, area_km2 = 12.2\<rparr>),
      (''Steglitz'', \<lparr>bounds = box 52.440 52.480 13.310 13.360, area_km2 = 9.2\<rparr>),
      (''Wilmersdorf'', \<lparr>bounds = box 52.470 52.510 13.280 13.330, area_km2 = 8.9\<rparr>),
      (''Spandau'', \<lparr>bounds = box 52.520 52.580 13.160 13.280, area_km2 = 91.9\<rparr>)]"

text \<open>\<^verbatim>\<open>get_district_boundaries_and_areas\<close> of the density map: another order, with populations.\<close>

definition density_get_district_boundaries_and_areas :: "(string \<times> district_info_pop) list" where
  "density_get_district_boundaries_and_areas =
     [(''Mitte'', \<lparr>bounds = box 52.500 52.550 13.350 13.420, area_km2 = 39.5, population = 383000\<rparr>),
      (''Prenzlauer Berg'', \<lparr>bounds = box 52.520 52.560 13.400 13.450, area_km2 = 10.9, population = 165000\<rparr>),
      (''Charlottenburg'', \<lparr>bounds = box 52.490 52.530 13.280 13.350, area_km2 = 64.7, population = 129000\<rparr>),
      (''Kreuzberg'', \<lparr>bounds = box 52.490 52.520 13.380 13.420, area_km2 = 15.2, population = 154000\<rparr>),
      (Neukoelln_density, \<lparr>bounds = box 52.450 52.500 13.400 13.470, area_km2 = 44.9, population = 329000\<rparr>),
      (''Friedrichshain'', \<lparr>bounds = box 52.500 52.530 13.420 13.480, area_km2 = 9.8, population = 289000\<rparr>),
      (Schoeneberg_density, \<lparr>bounds = box 52.460 52.500 13.330 13.380, area_km2 = 10.5, population = 349000\<rparr>),
      (''Wedding'', \<lparr>bounds = box 52.530 52.570 13.330 13.380, area_km2 = 9.5, population = 87000\<rparr>),
      (''Tempelhof'', \<lparr>bounds = box 52.450 52.490 13.380 13.420, area_km2 = 12.2, population = 56000\<rparr>),
      (''Steglitz'', \<lparr>bounds = box 52.440 52.480 13.310 13.360, area_km2 = 9.2, population = 105000\<rparr>),
      (''Wilmersdorf'', \<lparr>bounds = box 52.470 52.510 13.280 13.330, area_km2 = 8.9, population = 94000\<rparr>),
      (''Spandau'', \<lparr>bounds = box 52.520 52.580 13.160 13.280, area_km2 = 91.9, population = 245000\<rparr>)]"

text \<open>\<^verbatim>\<open>assign_districts_to_wineries(df)\<close> of the growth analysis reads its own catalog.\<close>

definition assign_districts_to_wineries :: "winery list \<Rightarrow> assigned_winery list" where
  "assign_districts_to_wineries df = assign_rows get_district_boundaries_and_areas df"

section \<open>Density normalisation\<close>

record district_stats =
  stat_district :: string
  stat_winery_count :: nat
  stat_area_km2 :: real
  stat_density_per_km2 :: real
  stat_population :: int
  stat_wineries_per_100k_people :: real

definition berlin_total_area :: real where
  "berlin_total_area = 891.7"

text \<open>
  The statistics are float arithmetic. Each sum, difference, product and quotient is the
  exact result rounded to a float; the rounding is the parameter \<open>rnd\<close>, about which
  nothing is assumed. A division by zero raises \<^verbatim>\<open>ZeroDivisionError\<close>.
\<close>

definition py_div :: "(real \<Rightarrow> real) \<Rightarrow> real \<Rightarrow> real \<Rightarrow> error + real" where
  "py_div rnd a b = (if b = 0 then Inl ZeroDivisionError else Inr (rnd (a / b)))"

text \<open>
  One pass of the statistics loop over \<^verbatim>\<open>districts.items()\<close>:
  \<^verbatim>\<open>density = winery_count / area_km2 if area_km2 > 0 else 0\<close>, then the row with
  \<^verbatim>\<open>round((winery_count / population) * 100000, 2) if population > 0 else 0\<close>.
\<close>

definition district_stats_row ::
  "(real \<Rightarrow> real) \<Rightarrow> assigned_winery list \<Rightarrow> string \<times> district_info_pop \<Rightarrow> error + district_stats" where
  "district_stats_row rnd df entry =
     (let district_name = fst entry; info = snd entry;
          winery_count = length (filter (\<lambda>w. district w = district_name) df);
          area = area_km2 info
      in case (if area > 0 then py_div rnd (real winery_count) area else Inr 0) of
           Inl e \<Rightarrow> Inl e
         | Inr density \<Rightarrow>
             (case (if population info > 0
                    then (case py_div rnd (real winery_count) (of_int (population info)) of
                            Inl e \<Rightarrow> Inl e
                          | Inr q \<Rightarrow> Inr (py_round (rnd (q * 100000)) 2))
                    else Inr 0) of
                Inl e \<Rightarrow> Inl e
              | Inr per_100k \<Rightarrow>
                  Inr \<lparr>stat_district = district_name,
                       stat_winery_count = winery_count,
                       stat_area_km2 = area,
                       stat_density_per_km2 = py_round density 3,
                       stat_population = population info,
                       stat_wineries_per_100k_people = per_100k\<rparr>))"

fun district_stats_rows ::
  "(real \<Rightarrow> real) \<Rightarrow> assigned_winery list \<Rightarrow> (string \<times> district_info_pop) list
     \<Rightarrow> error + district_stats list" where
  "district_stats_rows rnd df [] = Inr []"
| "district_stats_rows rnd df (entry # districts) =
     (case district_stats_row rnd df entry of
        Inl e \<Rightarrow> Inl e
      | Inr stats \<Rightarrow>
          (case district_stats_rows rnd df districts of
             Inl e \<Rightarrow> Inl e
           | Inr district_stats \<Rightarrow> Inr (stats # district_stats)))"

text \<open>\<^verbatim>\<open>sum(d['area_km2'] for d in districts.values())\<close>: float additions from the left, starting at 0.\<close>

definition total_defined_area :: "(real \<Rightarrow> real) \<Rightarrow> (string \<times> district_info_pop) list \<Rightarrow> real" where
  "total_defined_area rnd districts = foldl (\<lambda>acc d. rnd (acc + area_km2 (snd d))) 0 districts"

text \<open>
  The row for the wineries that kept the label \<^verbatim>\<open>'Other'\<close>:
  \<^verbatim>\<open>other_area = berlin_total_area - total_defined_area\<close> and
  \<^verbatim>\<open>round(len(other_wineries) / other_area, 3) if other_area > 0 else 0\<close>.
\<close>

definition other_stats ::
  "(real \<Rightarrow> real) \<Rightarrow> assigned_winery list \<Rightarrow> (string \<times> district_info_pop) list \<Rightarrow> error + district_stats" where
  "other_stats rnd df districts =
     (let other_wineries = filter (\<lambda>w. district w = ''Other'') df;
          other_area = rnd (berlin_total_area - total_defined_area rnd districts)
      in case (if other_area > 0
               then (case py_div rnd (real (length other_wineries)) other_area of
                       Inl e \<Rightarrow> Inl e
                     | Inr q \<Rightarrow> Inr (py_round q 3))
               else Inr 0) of
           Inl e \<Rightarrow> Inl e
         | Inr density \<Rightarrow>
             (case py_div rnd (real (length other_wineries)) 800000 of
                Inl e \<Rightarrow> Inl e
              | Inr q \<Rightarrow>
                  Inr \<lparr>stat_district = ''Other'',
                       stat_winery_count = length other_wineries,
                       stat_area_km2 = other_area,
                       stat_density_per_km2 = density,
                       stat_population = 800000,
                       stat_wineries_per_100k_people = py_round (rnd (q * 100000)) 2\<rparr>))"

text \<open>
  \<^verbatim>\<open>assign_districts_to_wineries(df, districts)\<close> of the density map: the labelled frame and
  the statistics, sorted by density, highest first. The sort is modelled as a stable one;
  the theorems below use only that it permutes the rows.
\<close>

definition density_assign_districts_to_wineries ::
  "(real \<Rightarrow> real) \<Rightarrow> winery list \<Rightarrow> (string \<times> district_info_pop) list
     \<Rightarrow> error + (assigned_winery list \<times> district_stats list)" where
  "density_assign_districts_to_wineries rnd df districts =
     (let df' = assign_rows districts df
      in case district_stats_rows rnd df' districts of
           Inl e \<Rightarrow> Inl e
         | Inr district_stats \<Rightarrow>
             (let other_wineries = filter (\<lambda>w. district w = ''Other'') df'
              in if length other_wineries > 0
                 then (case other_stats rnd df' districts of
                         Inl e \<Rightarrow> Inl e
                       | Inr other \<Rightarrow>
                           Inr (df', sort_key (\<lambda>s. - stat_density_per_km2 s)
                                       (district_stats @ [other])))
                 else Inr (df', sort_key (\<lambda>s. - stat_density_per_km2 s) district_stats)))"

text \<open>An entity whose coordinate is absent, NaN or infinite.\<close>

fun missing_or_non_finite :: "pyfloat option \<Rightarrow> bool" where
  "missing_or_non_finite None = True"
| "missing_or_non_finite (Some (Finite x)) = False"
| "missing_or_non_finite (Some v) = True"

section \<open>The random source\<close>

text \<open>
  NumPy's global generator is library code. From a given state it produces a fixed
  sequence of standard normal draws; \<^verbatim>\<open>np.random.seed(42)\<close> selects one such sequence
  and rewinds to its start. The sequence is the parameter \<open>z\<close>, the state is the number of
  draws consumed, and \<^verbatim>\<open>np.random.normal(loc, scale)\<close> returns \<open>loc + scale * z k\<close> and
  advances the state by one.
\<close>

definition np_random_normal :: "(nat \<Rightarrow> real) \<Rightarrow> nat \<Rightarrow> real \<Rightarrow> real \<Rightarrow> real \<times> nat" where
  "np_random_normal z k loc scale = (loc + scale * z k, Suc k)"

section \<open>The generated temporal datasets\<close>

text \<open>\<^verbatim>\<open>years = list(range(2014, 2025))\<close>\<close>

definition years :: "int list" where
  "years = [2014..2024]"

subsection \<open>Real estate prices\<close>

record real_estate_pattern =
  base_price_2014 :: real
  annual_rates :: "real list"
  re_volatility :: real

record real_estate_row =
  re_district :: string
  re_year :: int
  price_eur_sqm :: real
  re_annual_growth_rate :: real
  price_change_eur :: real

definition district_patterns :: "(string \<times> real_estate_pattern) list" where
  "district_patterns =
     [(Neukoelln, \<lparr>base_price_2014 = 2400,
         annual_rates = [0.03, 0.05, 0.08, 0.12, 0.15, 0.18, 0.14, 0.10, 0.08, 0.06, 0.04],
         re_volatility = 0.15\<rparr>),
      (''Wedding'', \<lparr>base_price_2014 = 2100,
         annual_rates = [0.02, 0.03, 0.04, 0.05, 0.06, 0.08, 0.12, 0.15, 0.18, 0.14, 0.10],
         re_volatility = 0.12\<rparr>),
      (''Friedrichshain'', \<lparr>base_price_2014 = 3200,
         annual_rates = [0.04, 0.06, 0.09, 0.12, 0.15, 0.12, 0.10, 0.08, 0.06, 0.05, 0.04],
         re_volatility = 0.10\<rparr>),
      (''Kreuzberg'', \<lparr>base_price_2014 = 3400,
         annual_rates = [0.05, 0.07, 0.10, 0.12, 0.09, 0.08, 0.07, 0.06, 0.05, 0.04, 0.03],
         re_volatility = 0.08\<rparr>),
      (''Prenzlauer Berg'', \<lparr>base_price_2014 = 4200,
         annual_rates = [0.08, 0.10, 0.09, 0.07, 0.06, 0.05, 0.04, 0.04, 0.03, 0.03, 0.02],
         re_volatility = 0.06\<rparr>),
      (''Mitte'', \<lparr>base_price_2014 = 4500,
         annual_rates = [0.06, 0.08, 0.09, 0.08, 0.07, 0.06, 0.05, 0.04, 0.04, 0.03, 0.03],
         re_volatility = 0.05\<rparr>)]"

text \<open>
  The loop \<^verbatim>\<open>for i, year in enumerate(years[:-1])\<close> of one district, carrying the price
  and the generator state. Reading \<^verbatim>\<open>annual_rates[i]\<close> past the end raises.
\<close>

fun real_estate_years ::
  "(nat \<Rightarrow> real) \<Rightarrow> string \<Rightarrow> real_estate_pattern \<Rightarrow> (nat \<times> int) list \<Rightarrow> real \<Rightarrow> nat
     \<Rightarrow> error + (real_estate_row list \<times> real \<times> nat)" where
  "real_estate_years z d pattern [] price k = Inr ([], price, k)"
| "real_estate_years z d pattern ((i, year) # rest) price k =
     (if i < length (annual_rates pattern) then
        (let (noise, k') = np_random_normal z k 0 (re_volatility pattern / 10);
             annual_rate = max 0 (annual_rates pattern ! i + noise);
             price_start_year = price;
             price_end_year = price * (1 + annual_rate);
             row = \<lparr>re_district = d, re_year = year, price_eur_sqm = price_start_year,
                    re_annual_growth_rate = annual_rate,
                    price_change_eur = price_end_year - price_start_year\<rparr>
         in case real_estate_years z d pattern rest price_end_year k' of
              Inl e \<Rightarrow> Inl e
            | Inr (rows, final, k'') \<Rightarrow> Inr (row # rows, final, k''))
      else Inl IndexError)"

text \<open>The body of \<^verbatim>\<open>for district, pattern in district_patterns.items()\<close>, with the final year.\<close>

definition real_estate_district ::
  "(nat \<Rightarrow> real) \<Rightarrow> string \<times> real_estate_pattern \<Rightarrow> nat \<Rightarrow> error + (real_estate_row list \<times> nat)" where
  "real_estate_district z entry k =
     (let d = fst entry; pattern = snd entry
      in case real_estate_years z d pattern (enumerate 0 (butlast years)) (base_price_2014 pattern) k of
           Inl e \<Rightarrow> Inl e
         | Inr (rows, price, k') \<Rightarrow>
             Inr (rows @ [\<lparr>re_district = d, re_year = 2024, price_eur_sqm = price,
                            re_annual_growth_rate = 0, price_change_eur = 0\<rparr>], k'))"

fun real_estate_districts ::
  "(nat \<Rightarrow> real) \<Rightarrow> (string \<times> real_estate_pattern) list \<Rightarrow> nat \<Rightarrow> error + (real_estate_row list \<times> nat)" where
  "real_estate_districts z [] k = Inr ([], k)"
| "real_estate_districts z (entry # patterns) k =
     (case real_estate_district z entry k of
        Inl e \<Rightarrow> Inl e
      | Inr (rows, k') \<Rightarrow>
          (case real_estate_districts z patterns k' of
             Inl e \<Rightarrow> Inl e
           | Inr (rows', k'') \<Rightarrow> Inr (rows @ rows', k'')))"

definition get_annual_real_estate_data :: "(nat \<Rightarrow> real) \<Rightarrow> nat \<Rightarrow> error + (real_estate_row list \<times> nat)" where
  "get_annual_real_estate_data z k = real_estate_districts z district_patterns k"

subsection \<open>Winery counts\<close>

record winery_pattern =
  base_count_2014 :: real
  growth_phases :: "(int \<times> int \<times> real) list"
  wg_volatility :: real

record winery_growth_row =
  wg_district :: string
  wg_year :: int
  winery_count :: real
  wg_annual_growth_rate :: real
  winery_growth_absolute :: real

definition winery_patterns :: "(string \<times> winery_pattern) list" where
  "winery_patterns =
     [(Neukoelln, \<lparr>base_count_2014 = 2,
         growth_phases = [(2014, 2016, 0.1), (2017, 2019, 0.4), (2020, 2022, 0.6), (2023, 2024, 0.3)],
         wg_volatility = 0.3\<rparr>),
      (''Wedding'', \<lparr>base_count_2014 = 1,
         growth_phases = [(2014, 2017, 0.05), (2018, 2020, 0.3), (2021, 2023, 0.5), (2024, 2024, 0.4)],
         wg_volatility = 0.4\<rparr>),
      (''Friedrichshain'', \<lparr>base_count_2014 = 4,
         growth_phases = [(2014, 2015, 0.2), (2016, 2018, 0.5), (2019, 2021, 0.4), (2022, 2024, 0.2)],
         wg_volatility = 0.25\<rparr>),
      (''Kreuzberg'', \<lparr>base_count_2014 = 6,
         growth_phases = [(2014, 2016, 0.3), (2017, 2019, 0.4), (2020, 2022, 0.2), (2023, 2024, 0.1)],
         wg_volatility = 0.2\<rparr>),
      (''Prenzlauer Berg'', \<lparr>base_count_2014 = 8,
         growth_phases = [(2014, 2017, 0.25), (2018, 2020, 0.15), (2021, 2024, 0.05)],
         wg_volatility = 0.15\<rparr>),
      (''Mitte'', \<lparr>base_count_2014 = 10,
         growth_phases = [(2014, 2017, 0.2), (2018, 2021, 0.1), (2022, 2024, 0.05)],
         wg_volatility = 0.1\<rparr>)]"

text \<open>The search for the phase of a year: first matching window, 0 when none matches.\<close>

fun phase_rate :: "(int \<times> int \<times> real) list \<Rightarrow> int \<Rightarrow> real" where
  "phase_rate [] year = 0"
| "phase_rate ((start_year, end_year, rate) # phases) year =
     (if start_year \<le> year \<and> year \<le> end_year then rate else phase_rate phases year)"

fun winery_years ::
  "(nat \<Rightarrow> real) \<Rightarrow> string \<Rightarrow> winery_pattern \<Rightarrow> int list \<Rightarrow> real \<Rightarrow> nat
     \<Rightarrow> winery_growth_row list \<times> real \<times> nat" where
  "winery_years z d pattern [] cnt k = ([], cnt, k)"
| "winery_years z d pattern (year # rest) cnt k =
     (let (noise, k') = np_random_normal z k 0 (wg_volatility pattern / 5);
          growth_rate = max 0 (phase_rate (growth_phases pattern) year + noise);
          count_start_year = cnt;
          count_end_year = cnt * (1 + growth_rate);
          row = \<lparr>wg_district = d, wg_year = year, winery_count = count_start_year,
                 wg_annual_growth_rate = growth_rate,
                 winery_growth_absolute = count_end_year - count_start_year\<rparr>;
          (rows, final, k'') = winery_years z d pattern rest count_end_year k'
      in (row # rows, final, k''))"

definition winery_district ::
  "(nat \<Rightarrow> real) \<Rightarrow> string \<times> winery_pattern \<Rightarrow> nat \<Rightarrow> winery_growth_row list \<times> nat" where
  "winery_district z entry k =
     (let d = fst entry; pattern = snd entry;
          (rows, cnt, k') = winery_years z d pattern (butlast years) (base_count_2014 pattern) k
      in (rows @ [\<lparr>wg_district = d, wg_year = 2024, winery_count = cnt,
                     wg_annual_growth_rate = 0, winery_growth_absolute = 0\<rparr>], k'))"

fun winery_districts ::
  "(nat \<Rightarrow> real) \<Rightarrow> (string \<times> winery_pattern) list \<Rightarrow> nat \<Rightarrow> winery_growth_row list \<times> nat" where
  "winery_districts z [] k = ([], k)"
| "winery_districts z (entry # patterns) k =
     (let (rows, k') = winery_district z entry k;
          (rows', k'') = winery_districts z patterns k'
      in (rows @ rows', k''))"

definition get_annual_winery_growth_data :: "(nat \<Rightarrow> real) \<Rightarrow> nat \<Rightarrow> winery_growth_row list \<times> nat" where
  "get_annual_winery_growth_data z k = winery_districts z winery_patterns k"

section \<open>Lagged cross-correlation\<close>









subsection \<open>The best lag\<close>





section \<open>Historical simulation of the growth analysis\<close>

text \<open>
  An entry of \<^verbatim>\<open>get_district_historical_context\<close>, with the fields that the simulation
  reads or copies into its rows. The context is a dict from district names to entries.
\<close>

record district_context =
  base_growth_rate :: real
  peak_growth_years :: "int list"
  growth_pattern :: string
  description :: string

record history_entry =
  h_district :: string
  h_year :: int
  h_density :: real
  h_count :: int
  h_area_km2 :: real
  h_growth_pattern :: string
  h_base_growth_rate :: real
  h_description :: string

record history_row = history_entry +
  yoy_growth_rate :: real

text \<open>\<^verbatim>\<open>int(v)\<close> on a float: truncation towards zero.\<close>

definition py_int :: "real \<Rightarrow> int" where
  "py_int v = (if 0 \<le> v then \<lfloor>v\<rfloor> else \<lceil>v\<rceil>)"

text \<open>
  The branch of an earlier year: \<^verbatim>\<open>current_density / ((1 + annual_growth) ** years_back)\<close>
  floored at 0. All operands are Python floats, so a power of 0 makes the division raise
  \<^verbatim>\<open>ZeroDivisionError\<close>, whatever the density is.
\<close>

definition historical_density :: "real \<Rightarrow> real \<Rightarrow> real \<Rightarrow> real \<Rightarrow> nat \<Rightarrow> error + real" where
  "historical_density current_density base_decay year_modifier random_factor years_back =
     (let annual_growth = base_decay * year_modifier * random_factor;
          power = (1 + annual_growth) ^ years_back
      in if power = 0 then Inl ZeroDivisionError
         else Inr (max 0 (current_density / power)))"

definition history_entry_of ::
  "string \<Rightarrow> district_context \<Rightarrow> real \<Rightarrow> int \<Rightarrow> real \<Rightarrow> int \<Rightarrow> history_entry" where
  "history_entry_of district_name context area year density cnt =
     \<lparr>h_district = district_name, h_year = year, h_density = py_round density 4, h_count = cnt,
      h_area_km2 = area, h_growth_pattern = growth_pattern context,
      h_base_growth_rate = base_growth_rate context, h_description = description context\<rparr>"

text \<open>
  The loop \<^verbatim>\<open>for year in reversed(years)\<close> of one district, with the generator state. Each
  year before 2024 takes one draw. The rows come out latest year first.
\<close>

fun history_years ::
  "(nat \<Rightarrow> real) \<Rightarrow> string \<Rightarrow> district_context \<Rightarrow> real \<Rightarrow> int \<Rightarrow> real \<Rightarrow> int list \<Rightarrow> nat
     \<Rightarrow> error + (history_entry list \<times> nat)" where
  "history_years z district_name context current_density current_count area [] k = Inr ([], k)"
| "history_years z district_name context current_density current_count area (year # rest) k =
     (if year = 2024 then
        (case history_years z district_name context current_density current_count area rest k of
           Inl e \<Rightarrow> Inl e
         | Inr (rows, k') \<Rightarrow>
             Inr (history_entry_of district_name context area year current_density current_count
                  # rows, k'))
      else
        (let years_back = nat (2024 - year);
             base_decay = base_growth_rate context;
             year_modifier = (if year \<in> set (peak_growth_years context) then 1.3 else 1.0);
             (random_factor, k') = np_random_normal z k 1.0 0.1
         in case historical_density current_density base_decay year_modifier random_factor years_back of
              Inl e \<Rightarrow> Inl e
            | Inr density \<Rightarrow>
                (case history_years z district_name context current_density current_count area rest k' of
                   Inl e \<Rightarrow> Inl e
                 | Inr (rows, k'') \<Rightarrow>
                     Inr (history_entry_of district_name context area year density
                            (py_int (density * area)) # rows, k''))))"

text \<open>
  The year-over-year rates, computed on the chronological rows from the recorded (rounded)
  densities; the first row gets 0.0.
\<close>

fun yoy_rates :: "real \<Rightarrow> history_entry list \<Rightarrow> history_row list" where
  "yoy_rates prev_density [] = []"
| "yoy_rates prev_density (entry # entries) =
     (let curr_density = h_density entry;
          growth_rate = (if prev_density > 0 then (curr_density - prev_density) / prev_density
                         else if curr_density > 0 then 1.0 else 0.0)
      in history_entry.extend entry \<lparr>yoy_growth_rate = py_round growth_rate 4\<rparr>
         # yoy_rates curr_density entries)"

definition add_yoy_growth_rates :: "history_entry list \<Rightarrow> error + history_row list" where
  "add_yoy_growth_rates district_history =
     (case district_history of
        [] \<Rightarrow> Inl IndexError
      | first # entries \<Rightarrow>
          Inr (history_entry.extend first \<lparr>yoy_growth_rate = 0.0\<rparr>
               # yoy_rates (h_density first) entries))"

text \<open>The present-day count and density of a district, as stored in \<^verbatim>\<open>current_density_by_district\<close>.\<close>

definition current_count_of :: "assigned_winery list \<Rightarrow> string \<Rightarrow> int" where
  "current_count_of df district_name = int (length (filter (\<lambda>w. district w = district_name) df))"

definition current_density_of :: "assigned_winery list \<Rightarrow> string \<Rightarrow> real \<Rightarrow> real" where
  "current_density_of df district_name area =
     (if area > 0 then of_int (current_count_of df district_name) / area else 0)"

text \<open>The body of the loop over the districts for one district that has a context.\<close>

definition district_history ::
  "(nat \<Rightarrow> real) \<Rightarrow> assigned_winery list \<Rightarrow> string \<times> district_info \<Rightarrow> district_context \<Rightarrow> nat
     \<Rightarrow> error + (history_row list \<times> nat)" where
  "district_history z df entry context k =
     (let district_name = fst entry;
          area = area_km2 (snd entry);
          current_density = current_density_of df district_name area;
          current_count = current_count_of df district_name
      in case history_years z district_name context current_density current_count area (rev years) k of
           Inl e \<Rightarrow> Inl e
         | Inr (rows, k') \<Rightarrow>
             (case add_yoy_growth_rates (rev rows) of
                Inl e \<Rightarrow> Inl e
              | Inr rows' \<Rightarrow> Inr (rows', k')))"

text \<open>
  \<^verbatim>\<open>for district_name in districts_info.keys()\<close>: a district without context is skipped
  and takes no draw; the others are simulated one after the other on the same generator.
\<close>

fun simulate_districts ::
  "(nat \<Rightarrow> real) \<Rightarrow> assigned_winery list \<Rightarrow> (string \<rightharpoonup> district_context)
     \<Rightarrow> (string \<times> district_info) list \<Rightarrow> nat \<Rightarrow> error + (history_row list \<times> nat)" where
  "simulate_districts z df district_context [] k = Inr ([], k)"
| "simulate_districts z df district_context (entry # districts) k =
     (case district_context (fst entry) of
        None \<Rightarrow> simulate_districts z df district_context districts k
      | Some context \<Rightarrow>
          (case district_history z df entry context k of
             Inl e \<Rightarrow> Inl e
           | Inr (rows, k') \<Rightarrow>
               (case simulate_districts z df district_context districts k' of
                  Inl e \<Rightarrow> Inl e
                | Inr (rows', k'') \<Rightarrow> Inr (rows @ rows', k''))))"

text \<open>
  \<^verbatim>\<open>simulate_historical_winery_development(current_df, district_context)\<close>. The call
  \<^verbatim>\<open>np.random.seed(42)\<close> puts the generator at the start of the sequence \<open>z\<close> of seed 42.
\<close>

definition simulate_historical_winery_development ::
  "(nat \<Rightarrow> real) \<Rightarrow> winery list \<Rightarrow> (string \<rightharpoonup> district_context) \<Rightarrow> error + history_row list" where
  "simulate_historical_winery_development z current_df district_context =
     (let df = assign_districts_to_wineries current_df;
          districts_info = get_district_boundaries_and_areas
      in case simulate_districts z df district_context districts_info 0 of
           Inl e \<Rightarrow> Inl e
         | Inr (historical_data, k) \<Rightarrow> Inr historical_data)"

subsection \<open>Worked inputs\<close>

text \<open>
  Two entries of \<^verbatim>\<open>get_district_historical_context\<close>, a winery in Neuk\"olln, and a
  sequence of draws whose first ten values differ from the later ones.
\<close>

definition context_neukoelln :: district_context where
  "context_neukoelln =
     \<lparr>base_growth_rate = 0.15, peak_growth_years = [2018, 2019, 2020, 2021],
      growth_pattern = ''explosive_recent'',
      description = ''Rapid recent development, cultural hub emergence''\<rparr>"

definition context_prenzlauer_berg :: district_context where
  "context_prenzlauer_berg =
     \<lparr>base_growth_rate = 0.08, peak_growth_years = [2015, 2016, 2017],
      growth_pattern = ''early_strong_then_stable'',
      description = ''Early gentrification leader, sustained growth''\<rparr>"

definition winery_in_neukoelln :: winery where
  "winery_in_neukoelln =
     \<lparr>name = ''Weinladen'', latitude = Some (Finite 52.47), longitude = Some (Finite 13.43)\<rparr>"

definition draws_high_then_low :: "nat \<Rightarrow> real" where
  "draws_high_then_low n = (if n < 10 then 1 else - 1)"





section \<open>Growth metrics\<close>

record growth_metrics =
  m_district :: string
  start_density_2014 :: real
  end_density_2024 :: real
  total_growth_rate :: real
  cagr :: real
  avg_annual_growth :: real
  growth_volatility :: real
  peak_growth_year :: int
  peak_growth_rate :: real
  m_growth_pattern :: string
  m_area_km2 :: real
  m_description :: string

text \<open>\<^verbatim>\<open>Series.unique()\<close>: the distinct values in order of first appearance.\<close>

fun unique :: "'a list \<Rightarrow> 'a list" where
  "unique [] = []"
| "unique (x # xs) = x # unique (filter (\<lambda>y. y \<noteq> x) xs)"

text \<open>\<^verbatim>\<open>Series.mean()\<close> and \<^verbatim>\<open>Series.std()\<close> (sample standard deviation) of a column without NaN.\<close>

definition mean :: "real list \<Rightarrow> real" where
  "mean xs = sum_list xs / real (length xs)"

definition std :: "real list \<Rightarrow> real" where
  "std xs = sqrt (sum_list (map (\<lambda>x. (x - mean xs) ^ 2) xs) / real (length xs - 1))"

text \<open>\<^verbatim>\<open>Series.idxmax()\<close>: the row of the first occurrence of the maximum.\<close>

fun first_max_from :: "('a \<Rightarrow> real) \<Rightarrow> 'a \<Rightarrow> 'a list \<Rightarrow> 'a" where
  "first_max_from f best [] = best"
| "first_max_from f best (x # xs) =
     (if f x > f best then first_max_from f x xs else first_max_from f best xs)"

text \<open>
  The metrics of one district from its rows, sorted by year; the caller has checked that
  there are at least two rows. The power with a fractional exponent is \<open>powr\<close>.
\<close>

definition district_metrics :: "string \<Rightarrow> history_row \<Rightarrow> history_row list \<Rightarrow> growth_metrics" where
  "district_metrics district_name first rest =
     (let district_data = first # rest;
          start_density = h_density first;
          end_density = h_density (last district_data);
          years_span = h_year (last district_data) - h_year first;
          total_growth_rate =
            (if start_density > 0 then (end_density - start_density) / start_density
             else if end_density > 0 then 1.0 else 0.0);
          cagr = (if start_density > 0 \<and> years_span > 0
                  then (end_density / start_density) powr (1 / of_int years_span) - 1
                  else 0.0);
          avg_yoy_growth = mean (map yoy_growth_rate district_data);
          growth_volatility = std (map yoy_growth_rate district_data);
          peak = first_max_from yoy_growth_rate first rest
      in \<lparr>m_district = district_name,
          start_density_2014 = py_round start_density 4,
          end_density_2024 = py_round end_density 4,
          total_growth_rate = py_round total_growth_rate 4,
          cagr = py_round cagr 4,
          avg_annual_growth = py_round avg_yoy_growth 4,
          growth_volatility = py_round growth_volatility 4,
          peak_growth_year = h_year peak,
          peak_growth_rate = py_round (yoy_growth_rate peak) 4,
          m_growth_pattern = h_growth_pattern first,
          m_area_km2 = h_area_km2 first,
          m_description = h_description first\<rparr>)"

text \<open>
  The loop over the districts of the frame. A district with fewer than two rows is skipped
  by \<^verbatim>\<open>continue\<close>. The sort by year is modelled as a stable one; the frames of the
  simulation hold each year once per district.
\<close>

fun metrics_loop :: "history_row list \<Rightarrow> string list \<Rightarrow> growth_metrics list" where
  "metrics_loop historical_df [] = []"
| "metrics_loop historical_df (d # ds) =
     (case sort_key h_year (filter (\<lambda>r. h_district r = d) historical_df) of
        first # second # rest \<Rightarrow>
          district_metrics d first (second # rest) # metrics_loop historical_df ds
      | _ \<Rightarrow> metrics_loop historical_df ds)"

text \<open>
  \<^verbatim>\<open>calculate_growth_metrics\<close>. The final sort by the column \<^verbatim>\<open>cagr\<close>, highest first, raises
  \<^verbatim>\<open>KeyError\<close> on a frame built from an empty list, which has no columns.
\<close>

definition calculate_growth_metrics :: "history_row list \<Rightarrow> error + growth_metrics list" where
  "calculate_growth_metrics historical_df =
     (case metrics_loop historical_df (unique (map h_district historical_df)) of
        [] \<Rightarrow> Inl KeyError
      | m # ms \<Rightarrow> Inr (sort_key (\<lambda>m. - cagr m) (m # ms)))"

subsection \<open>A worked frame\<close>

text \<open>One row for district A, and two rows for district B whose density grows from 1.0 to 1.1.\<close>

definition frame_row :: "string \<Rightarrow> int \<Rightarrow> real \<Rightarrow> real \<Rightarrow> history_row" where
  "frame_row d y density rate =
     \<lparr>h_district = d, h_year = y, h_density = density, h_count = 1, h_area_km2 = 1,
      h_growth_pattern = ''steady'', h_base_growth_rate = 0.1, h_description = ''frame'',
      yoy_growth_rate = rate\<rparr>"

definition short_and_long_frame :: "history_row list" where
  "short_and_long_frame =
     [frame_row ''A'' 2024 1.0 0.0, frame_row ''B'' 2023 1.0 0.0, frame_row ''B'' 2024 1.1 0.1]"

section \<open>Properties of the region assignment\<close>

lemma assign_rows_map: "assign_rows districts df = map (assign_row districts) df"
  by (induction df) simp_all

lemma district_assign_row: "district (assign_row districts w) = assign_label districts w"
  by (simp add: assign_row_def winery.extend_def)

lemma first_match_None:
  "first_match districts lat lon = None \<longleftrightarrow>
     (\<forall>j < length districts. \<not> in_bounds (bounds (snd (districts ! j))) lat lon)"
proof (induction districts)
  case Nil
  then show ?case by simp
next
  case (Cons d districts)
  obtain n info where d: "d = (n, info)" by (cases d)
  show ?case using Cons.IH
    by (auto simp: d less_Suc_eq_0_disj)
qed

lemma first_match_first:
  assumes "j < length districts"
    and "in_bounds (bounds (snd (districts ! j))) lat lon"
    and "\<forall>k < j. \<not> in_bounds (bounds (snd (districts ! k))) lat lon"
  shows "first_match districts lat lon = Some (fst (districts ! j))"
  using assms
proof (induction districts arbitrary: j)
  case Nil
  then show ?case by simp
next
  case (Cons d districts)
  obtain n info where d: "d = (n, info)" by (cases d)
  show ?case
  proof (cases j)
    case 0
    with Cons.prems show ?thesis by (simp add: d)
  next
    case (Suc j')
    from Cons.prems(3) Suc have first: "\<not> in_bounds (bounds info) lat lon"
      by (auto simp: d dest: spec [of _ 0])
    have rest: "\<forall>k < j'. \<not> in_bounds (bounds (snd (districts ! k))) lat lon"
    proof (intro allI impI)
      fix k assume "k < j'"
      then have "Suc k < j" using Suc by simp
      with Cons.prems(3) have "\<not> in_bounds (bounds (snd ((d # districts) ! Suc k))) lat lon"
        by blast
      then show "\<not> in_bounds (bounds (snd (districts ! k))) lat lon" by simp
    qed
    from Cons.prems(1,2) Suc have "j' < length districts"
      and "in_bounds (bounds (snd (districts ! j'))) lat lon" by simp_all
    from Cons.IH [OF this rest] first Suc show ?thesis by (simp add: d)
  qed
qed

lemma assign_label_passing:
  assumes "latitude w = Some lat" and "longitude w = Some lon"
    and "truthy (Some lat)" and "truthy (Some lon)"
  shows "assign_label districts w =
           (case first_match districts lat lon of Some n \<Rightarrow> n | None \<Rightarrow> ''Other'')"
  using assms by (simp add: assign_label_def)

lemma assign_label_invalid:
  assumes "missing_or_non_finite (latitude w) \<or> missing_or_non_finite (longitude w)"
  shows "assign_label districts w = ''Other''"
proof -
  have nan: "first_match districts lat lon = None"
    if "lat \<in> {PosInf, NegInf, NaN} \<or> lon \<in> {PosInf, NegInf, NaN}" for lat lon
    using that by (induction districts) (auto simp: in_bounds_def)
  show ?thesis
  proof (cases "latitude w")
    case None
    then show ?thesis by (simp add: assign_label_def)
  next
    case lat: (Some lat)
    show ?thesis
    proof (cases "longitude w")
      case None
      then show ?thesis by (simp add: assign_label_def lat)
    next
      case lon: (Some lon)
      from assms lat lon have "lat \<in> {PosInf, NegInf, NaN} \<or> lon \<in> {PosInf, NegInf, NaN}"
        by (cases lat; cases lon) auto
      from nan [OF this] show ?thesis by (simp add: assign_label_def lat lon)
    qed
  qed
qed


text \<open>
  For an entity whose latitude and longitude both pass the guard \<^verbatim>\<open>if lat and lon\<close>, the
  label is the name of the first catalog entry, in catalog order, whose box contains the
  coordinates, bounds included; when no box contains them the label is \<^verbatim>\<open>'Other'\<close>. Each
  row is labelled from its own coordinates: reordering the frame reorders the labelled rows
  and changes none of them.
\<close>

lemma first_match_when_guard_passes:
  assumes "i < length df"
    and "latitude (df ! i) = Some lat" and "longitude (df ! i) = Some lon"
    and "truthy (Some lat)" and "truthy (Some lon)"
  shows "(\<forall>j < length districts.
            in_bounds (bounds (snd (districts ! j))) lat lon \<and>
            (\<forall>k < j. \<not> in_bounds (bounds (snd (districts ! k))) lat lon) \<longrightarrow>
            district (assign_rows districts df ! i) = fst (districts ! j)) \<and>
         ((\<forall>j < length districts. \<not> in_bounds (bounds (snd (districts ! j))) lat lon) \<longrightarrow>
            district (assign_rows districts df ! i) = ''Other'') \<and>
         (\<forall>df'. mset df' = mset df \<longrightarrow>
            mset (assign_rows districts df') = image_mset (assign_row districts) (mset df))"
proof (intro conjI allI impI)
  have row: "district (assign_rows districts df ! i) =
      (case first_match districts lat lon of Some n \<Rightarrow> n | None \<Rightarrow> ''Other'')"
    using assms by (simp add: assign_rows_map district_assign_row assign_label_passing)
  {
    fix j
    assume "j < length districts"
      and "in_bounds (bounds (snd (districts ! j))) lat lon \<and>
           (\<forall>k < j. \<not> in_bounds (bounds (snd (districts ! k))) lat lon)"
    then have "first_match districts lat lon = Some (fst (districts ! j))"
      by (simp add: first_match_first)
    then show "district (assign_rows districts df ! i) = fst (districts ! j)"
      by (simp add: row)
  }
  {
    assume "\<forall>j < length districts. \<not> in_bounds (bounds (snd (districts ! j))) lat lon"
    then have "first_match districts lat lon = None" by (simp add: first_match_None)
    then show "district (assign_rows districts df ! i) = ''Other''" by (simp add: row)
  }
  {
    fix df' :: "winery list"
    assume "mset df' = mset df"
    then show "mset (assign_rows districts df') = image_mset (assign_row districts) (mset df)"
      by (simp add: assign_rows_map)
  }
qed

text \<open>
  In the growth analysis's catalog a point of the overlap of Prenzlauer Berg (first entry)
  and Mitte (sixth entry) is labelled Prenzlauer Berg.
\<close>

lemma overlap_point_labelled_with_first_entry:
  "district (assign_rows get_district_boundaries_and_areas
      [\<lparr>name = ''w'', latitude = Some (Finite 52.53), longitude = Some (Finite 13.41)\<rparr>] ! 0)
     = ''Prenzlauer Berg'' \<and>
   in_bounds (bounds (snd (get_district_boundaries_and_areas ! 5))) (Finite 52.53) (Finite 13.41) \<and>
   fst (get_district_boundaries_and_areas ! 5) = ''Mitte''"
proof -
  let ?df = "[\<lparr>name = ''w'', latitude = Some (Finite 52.53), longitude = Some (Finite 13.41)\<rparr>]"
  have a: "0 < length ?df" by simp
  have b: "latitude (?df ! 0) = Some (Finite 52.53)" by simp
  have c: "longitude (?df ! 0) = Some (Finite 13.41)" by simp
  have d: "truthy (Some (Finite 52.53))" "truthy (Some (Finite 13.41))" by simp_all
  have e: "0 < length get_district_boundaries_and_areas" by code_simp
  have f: "in_bounds (bounds (snd (get_district_boundaries_and_areas ! 0))) (Finite 52.53) (Finite 13.41)"
    by code_simp
  have g: "fst (get_district_boundaries_and_areas ! 0) = ''Prenzlauer Berg''" by code_simp
  have h: "in_bounds (bounds (snd (get_district_boundaries_and_areas ! 5))) (Finite 52.53) (Finite 13.41)"
    by code_simp
  have k: "fst (get_district_boundaries_and_areas ! 5) = ''Mitte''" by code_simp
  from first_match_when_guard_passes [OF a b c d, of get_district_boundaries_and_areas]
  have "district (assign_rows get_district_boundaries_and_areas ?df ! 0) =
      fst (get_district_boundaries_and_areas ! 0)"
    using e f by blast
  with g h k show ?thesis by simp
qed

text \<open>
  Every box of the two built-in catalogs lies at positive latitudes and longitudes, so a
  zero coordinate is in none of them and the guard changes no label there: with these
  catalogs the label of every entity that has both coordinates is the first match.
\<close>

lemma first_match_zero_outside:
  assumes "\<forall>e \<in> set districts. 0 < lat_min (bounds (snd e)) \<and> 0 < lon_min (bounds (snd e))"
    and "lat = Finite 0 \<or> lon = Finite 0"
  shows "first_match districts lat lon = None"
  using assms by (induction districts) (auto simp: in_bounds_def)

lemma assign_label_positive_catalog:
  assumes "\<forall>e \<in> set districts. 0 < lat_min (bounds (snd e)) \<and> 0 < lon_min (bounds (snd e))"
    and "latitude w = Some lat" and "longitude w = Some lon"
  shows "assign_label districts w =
           (case first_match districts lat lon of Some n \<Rightarrow> n | None \<Rightarrow> ''Other'')"
proof (cases "truthy (Some lat) \<and> truthy (Some lon)")
  case True
  with assms(2,3) show ?thesis by (simp add: assign_label_passing)
next
  case False
  then have "lat = Finite 0 \<or> lon = Finite 0" by (cases lat; cases lon) auto
  from first_match_zero_outside [OF assms(1) this] False assms(2,3)
  show ?thesis by (auto simp: assign_label_def)
qed

lemma builtin_catalogs_positive:
  "\<forall>e \<in> set get_district_boundaries_and_areas.
      0 < lat_min (bounds (snd e)) \<and> 0 < lon_min (bounds (snd e))"
  "\<forall>e \<in> set density_get_district_boundaries_and_areas.
      0 < lat_min (bounds (snd e)) \<and> 0 < lon_min (bounds (snd e))"
  by (simp_all add: get_district_boundaries_and_areas_def
        density_get_district_boundaries_and_areas_def box_def)

lemma builtin_catalogs_first_match:
  assumes "latitude w = Some lat" and "longitude w = Some lon"
  shows "assign_label get_district_boundaries_and_areas w =
           (case first_match get_district_boundaries_and_areas lat lon of
              Some n \<Rightarrow> n | None \<Rightarrow> ''Other'')"
    and "assign_label density_get_district_boundaries_and_areas w =
           (case first_match density_get_district_boundaries_and_areas lat lon of
              Some n \<Rightarrow> n | None \<Rightarrow> ''Other'')"
  using assms builtin_catalogs_positive by (simp_all add: assign_label_positive_catalog)

lemma assign_rows_length: "length (assign_rows districts df) = length df"
  by (simp add: assign_rows_map)

section \<open>Properties of the density statistics\<close>

text \<open>Every division of the statistics is guarded or has a constant divisor: no pass raises.\<close>

lemma district_stats_row_returns:
  "\<exists>row. district_stats_row rnd df entry = Inr row \<and>
         stat_district row = fst entry \<and>
         stat_winery_count row = length (filter (\<lambda>w. district w = fst entry) df)"
  by (simp add: district_stats_row_def py_div_def Let_def)

lemma district_stats_rows_returns:
  "\<exists>rows. district_stats_rows rnd df districts = Inr rows \<and>
          map stat_district rows = map fst districts"
proof (induction districts)
  case Nil
  then show ?case by simp
next
  case (Cons entry districts)
  from district_stats_row_returns [of rnd df entry] obtain row
    where row: "district_stats_row rnd df entry = Inr row" "stat_district row = fst entry"
    by blast
  from Cons.IH obtain rows
    where rows: "district_stats_rows rnd df districts = Inr rows"
                "map stat_district rows = map fst districts"
    by blast
  from row rows show ?case by simp
qed

lemma other_stats_returns:
  "\<exists>row. other_stats rnd df districts = Inr row \<and>
         stat_district row = ''Other'' \<and>
         stat_winery_count row = length (filter (\<lambda>w. district w = ''Other'') df) \<and>
         stat_area_km2 row = rnd (berlin_total_area - total_defined_area rnd districts) \<and>
         stat_density_per_km2 row =
           (if 0 < rnd (berlin_total_area - total_defined_area rnd districts)
            then py_round (rnd (real (length (filter (\<lambda>w. district w = ''Other'') df))
                                / rnd (berlin_total_area - total_defined_area rnd districts))) 3
            else 0)"
  by (simp add: other_stats_def py_div_def Let_def)

lemma density_assign_returns:
  "\<exists>rows other.
     district_stats_rows rnd (assign_rows districts df) districts = Inr rows \<and>
     other_stats rnd (assign_rows districts df) districts = Inr other \<and>
     density_assign_districts_to_wineries rnd df districts =
       Inr (assign_rows districts df,
            sort_key (\<lambda>s. - stat_density_per_km2 s)
              (if filter (\<lambda>w. district w = ''Other'') (assign_rows districts df) \<noteq> []
               then rows @ [other] else rows))"
proof -
  from district_stats_rows_returns [of rnd "assign_rows districts df" districts] obtain rows
    where rows: "district_stats_rows rnd (assign_rows districts df) districts = Inr rows"
    by blast
  from other_stats_returns [of rnd "assign_rows districts df" districts] obtain other
    where other: "other_stats rnd (assign_rows districts df) districts = Inr other"
    by blast
  from rows other
  have "density_assign_districts_to_wineries rnd df districts =
       Inr (assign_rows districts df,
            sort_key (\<lambda>s. - stat_density_per_km2 s)
              (if filter (\<lambda>w. district w = ''Other'') (assign_rows districts df) \<noteq> []
               then rows @ [other] else rows))"
    by (simp add: density_assign_districts_to_wineries_def Let_def)
  with rows other show ?thesis by blast
qed

text \<open>The rows of the statistics labelled \<^verbatim>\<open>'Other'\<close>, when no cataloged region has that name.\<close>

lemma stats_rows_of_Other:
  assumes "''Other'' \<notin> fst ` set districts"
  shows "\<exists>stats other.
           density_assign_districts_to_wineries rnd df districts
             = Inr (assign_rows districts df, stats) \<and>
           other_stats rnd (assign_rows districts df) districts = Inr other \<and>
           filter (\<lambda>s. stat_district s = ''Other'') stats =
             (if filter (\<lambda>w. district w = ''Other'') (assign_rows districts df) \<noteq> []
              then [other] else [])"
proof -
  from density_assign_returns [of rnd districts df] obtain rows other
    where rows: "district_stats_rows rnd (assign_rows districts df) districts = Inr rows"
      and other: "other_stats rnd (assign_rows districts df) districts = Inr other"
      and run: "density_assign_districts_to_wineries rnd df districts =
         Inr (assign_rows districts df,
              sort_key (\<lambda>s. - stat_density_per_km2 s)
                (if filter (\<lambda>w. district w = ''Other'') (assign_rows districts df) \<noteq> []
                 then rows @ [other] else rows))"
    by blast
  from district_stats_rows_returns [of rnd "assign_rows districts df" districts] rows
  have names: "map stat_district rows = map fst districts" by simp
  have img: "stat_district ` set rows = fst ` set districts"
    using arg_cong [OF names, of set] by simp
  have "\<forall>s \<in> set rows. stat_district s \<noteq> ''Other''"
  proof
    fix s assume "s \<in> set rows"
    then have "stat_district s \<in> stat_district ` set rows" by (rule imageI)
    with img assms show "stat_district s \<noteq> ''Other''" by metis
  qed
  then have none: "filter (\<lambda>s. stat_district s = ''Other'') rows = []"
    by (simp add: filter_empty_conv)
  from other_stats_returns [of rnd "assign_rows districts df" districts] other
  have lab: "stat_district other = ''Other''" by simp
  from none lab
  have "filter (\<lambda>s. stat_district s = ''Other'')
          (sort_key (\<lambda>s. - stat_density_per_km2 s)
             (if filter (\<lambda>w. district w = ''Other'') (assign_rows districts df) \<noteq> []
              then rows @ [other] else rows)) =
        (if filter (\<lambda>w. district w = ''Other'') (assign_rows districts df) \<noteq> []
         then [other] else [])"
    by (simp add: filter_sort)
  with run other show ?thesis by blast
qed

section \<open>An entity on the equator or the prime meridian\<close>

text \<open>
  Claim C2 against the code. The density map's \<^verbatim>\<open>assign_districts_to_wineries(df, districts)\<close>
  is given a catalog of one region, \<^verbatim>\<open>'Equator'\<close>, with the box of latitudes -1 to 1 and
  longitudes 0 to 10, and a frame of two entities. The second lies on the corner
  (1, 10) of the box and is labelled \<^verbatim>\<open>'Equator'\<close>: the bounds are inclusive. The first
  lies at latitude 0.0 and longitude 5.0, inside the box, which is the first and only
  region containing it; the guard \<^verbatim>\<open>if lat and lon\<close> reads 0.0 as false, the catalog is
  never searched, and the entity keeps the label \<^verbatim>\<open>'Other'\<close>.
\<close>

theorem zero_coordinate_inside_box_labelled_Other:
  "in_bounds (box (-1) 1 0 10) (Finite 0) (Finite 5) \<and>
   first_match [(''Equator'', \<lparr>bounds = box (-1) 1 0 10, area_km2 = 1, population = 1\<rparr>)]
      (Finite 0) (Finite 5) = Some ''Equator'' \<and>
   (\<forall>rnd. map_sum id (\<lambda>r. map district (fst r))
      (density_assign_districts_to_wineries rnd
         [\<lparr>name = ''w'', latitude = Some (Finite 0), longitude = Some (Finite 5)\<rparr>,
          \<lparr>name = ''c'', latitude = Some (Finite 1), longitude = Some (Finite 10)\<rparr>]
         [(''Equator'', \<lparr>bounds = box (-1) 1 0 10, area_km2 = 1, population = 1\<rparr>)])
     = Inr [''Other'', ''Equator''])"
proof (intro conjI allI)
  show "in_bounds (box (-1) 1 0 10) (Finite 0) (Finite 5)" by code_simp
  show "first_match [(''Equator'', \<lparr>bounds = box (-1) 1 0 10, area_km2 = 1, population = 1\<rparr>)]
      (Finite 0) (Finite 5) = Some ''Equator''" by code_simp
  fix rnd :: "real \<Rightarrow> real"
  let ?df = "[\<lparr>name = ''w'', latitude = Some (Finite 0), longitude = Some (Finite 5)\<rparr>,
              \<lparr>name = ''c'', latitude = Some (Finite 1), longitude = Some (Finite 10)\<rparr>]"
  let ?ds = "[(''Equator'', \<lparr>bounds = box (-1) 1 0 10, area_km2 = 1, population = 1::int\<rparr>)]"
  have labels: "map district (assign_rows ?ds ?df) = [''Other'', ''Equator'']" by code_simp
  from density_assign_returns [of rnd ?ds ?df] obtain stats
    where "density_assign_districts_to_wineries rnd ?df ?ds = Inr (assign_rows ?ds ?df, stats)"
    by blast
  then show "map_sum id (\<lambda>r. map district (fst r))
      (density_assign_districts_to_wineries rnd ?df ?ds) = Inr [''Other'', ''Equator'']"
    by (simp only: map_sum.simps fst_conv labels)
qed

section \<open>Entities without usable coordinates\<close>

text \<open>
  Claim C8, amended. An entity whose latitude or longitude is missing, NaN or infinite is
  not removed from the frame and no count of dropped entities exists: in both scripts it
  keeps the label \<^verbatim>\<open>'Other'\<close>, it is assigned to no cataloged region, and the density map
  returns statistics that count it in the row of \<^verbatim>\<open>'Other'\<close>.
\<close>

theorem invalid_coordinates_labelled_Other_and_counted:
  assumes "i < length df"
    and "missing_or_non_finite (latitude (df ! i)) \<or> missing_or_non_finite (longitude (df ! i))"
  shows "length (assign_districts_to_wineries df) = length df \<and>
         district (assign_districts_to_wineries df ! i) = ''Other'' \<and>
         (\<exists>df' stats other.
            density_assign_districts_to_wineries rnd df districts = Inr (df', stats) \<and>
            length df' = length df \<and>
            district (df' ! i) = ''Other'' \<and>
            other_stats rnd df' districts = Inr other \<and>
            other \<in> set stats \<and>
            stat_district other = ''Other'' \<and>
            stat_winery_count other = length (filter (\<lambda>w. district w = ''Other'') df') \<and>
            0 < stat_winery_count other)"
proof -
  let ?df = "assign_rows districts df"
  have lab: "district (assign_rows ds df ! i) = ''Other''" for ds :: "(string \<times> 'a district_info_scheme) list"
    using assms by (simp add: assign_rows_map district_assign_row assign_label_invalid)
  have "?df ! i \<in> set ?df" using assms(1) by (simp add: assign_rows_length)
  with lab [of districts] have mem: "?df ! i \<in> set (filter (\<lambda>w. district w = ''Other'') ?df)"
    by simp
  then have ne: "filter (\<lambda>w. district w = ''Other'') ?df \<noteq> []"
    by (metis empty_iff empty_set)
  from density_assign_returns [of rnd districts df] ne obtain rows other
    where other: "other_stats rnd ?df districts = Inr other"
      and run: "density_assign_districts_to_wineries rnd df districts =
         Inr (?df, sort_key (\<lambda>s. - stat_density_per_km2 s) (rows @ [other]))"
    by auto
  from other_stats_returns [of rnd ?df districts] other
  have fields: "stat_district other = ''Other''"
    "stat_winery_count other = length (filter (\<lambda>w. district w = ''Other'') ?df)"
    by simp_all
  from ne fields(2) have pos: "0 < stat_winery_count other" by simp
  have listed: "other \<in> set (sort_key (\<lambda>s. - stat_density_per_km2 s) (rows @ [other]))"
    by simp
  from run other listed fields pos lab [of districts]
  have "\<exists>df' stats other.
            density_assign_districts_to_wineries rnd df districts = Inr (df', stats) \<and>
            length df' = length df \<and>
            district (df' ! i) = ''Other'' \<and>
            other_stats rnd df' districts = Inr other \<and>
            other \<in> set stats \<and>
            stat_district other = ''Other'' \<and>
            stat_winery_count other = length (filter (\<lambda>w. district w = ''Other'') df') \<and>
            0 < stat_winery_count other"
    by (intro exI [of _ ?df] exI [of _ "sort_key (\<lambda>s. - stat_density_per_km2 s) (rows @ [other])"]
          exI [of _ other]) (simp add: assign_rows_length)
  with lab [of get_district_boundaries_and_areas] show ?thesis
    by (simp add: assign_rows_length assign_districts_to_wineries_def)
qed

text \<open>An entity with a NaN latitude, with the density map's own catalog and any float rounding.\<close>

theorem invalid_coordinates_labelled_Other_and_counted_witness:
  "missing_or_non_finite (latitude \<lparr>name = ''v'', latitude = Some NaN, longitude = Some (Finite 13.41)\<rparr>) \<and>
   district (assign_districts_to_wineries
      [\<lparr>name = ''v'', latitude = Some NaN, longitude = Some (Finite 13.41)\<rparr>] ! 0) = ''Other'' \<and>
   (\<forall>rnd. \<exists>df' stats other.
      density_assign_districts_to_wineries rnd
        [\<lparr>name = ''v'', latitude = Some NaN, longitude = Some (Finite 13.41)\<rparr>]
        density_get_district_boundaries_and_areas = Inr (df', stats) \<and>
      district (df' ! 0) = ''Other'' \<and>
      other_stats rnd df' density_get_district_boundaries_and_areas = Inr other \<and>
      other \<in> set stats \<and>
      stat_district other = ''Other'' \<and>
      0 < stat_winery_count other)"
proof -
  let ?df = "[\<lparr>name = ''v'', latitude = Some NaN, longitude = Some (Finite 13.41)\<rparr>]"
  have a: "0 < length ?df" by simp
  have b: "missing_or_non_finite (latitude (?df ! 0)) \<or> missing_or_non_finite (longitude (?df ! 0))"
    by simp
  have "\<exists>df' stats other.
      density_assign_districts_to_wineries rnd ?df
        density_get_district_boundaries_and_areas = Inr (df', stats) \<and>
      district (df' ! 0) = ''Other'' \<and>
      other_stats rnd df' density_get_district_boundaries_and_areas = Inr other \<and>
      other \<in> set stats \<and>
      stat_district other = ''Other'' \<and>
      0 < stat_winery_count other" for rnd
    using invalid_coordinates_labelled_Other_and_counted
         [OF a b, of rnd density_get_district_boundaries_and_areas]
    by blast
  moreover from invalid_coordinates_labelled_Other_and_counted
         [OF a b, of "\<lambda>x. x" density_get_district_boundaries_and_areas]
  have "district (assign_districts_to_wineries ?df ! 0) = ''Other''" by blast
  ultimately show ?thesis by simp
qed

text \<open>
  As stated, C8 fails: an entity with a NaN latitude stays in the frame, labelled
  \<^verbatim>\<open>'Other'\<close>, and the statistics count one winery under \<^verbatim>\<open>'Other'\<close>.
\<close>

theorem nan_coordinate_counted_under_Other_counterexample:
  "\<forall>rnd. \<exists>df' stats.
     density_assign_districts_to_wineries rnd
       [\<lparr>name = ''v'', latitude = Some NaN, longitude = Some (Finite 13.41)\<rparr>]
       density_get_district_boundaries_and_areas = Inr (df', stats) \<and>
     map district df' = [''Other''] \<and>
     map stat_winery_count (filter (\<lambda>s. stat_district s = ''Other'') stats) = [1]"
proof
  fix rnd :: "real \<Rightarrow> real"
  let ?df = "[\<lparr>name = ''v'', latitude = Some NaN, longitude = Some (Finite 13.41)\<rparr>]"
  let ?ds = density_get_district_boundaries_and_areas
  have names: "''Other'' \<notin> fst ` set ?ds" by code_simp
  have labels: "map district (assign_rows ?ds ?df) = [''Other'']" by code_simp
  then have others: "filter (\<lambda>w. district w = ''Other'') (assign_rows ?ds ?df) = assign_rows ?ds ?df"
    by (simp add: assign_row_def)
  from stats_rows_of_Other [OF names, of rnd ?df] obtain stats other
    where run: "density_assign_districts_to_wineries rnd ?df ?ds = Inr (assign_rows ?ds ?df, stats)"
      and other: "other_stats rnd (assign_rows ?ds ?df) ?ds = Inr other"
      and rows: "filter (\<lambda>s. stat_district s = ''Other'') stats =
             (if filter (\<lambda>w. district w = ''Other'') (assign_rows ?ds ?df) \<noteq> []
              then [other] else [])"
    by blast
  from other_stats_returns [of rnd "assign_rows ?ds ?df" ?ds] other
  have "stat_winery_count other = length (filter (\<lambda>w. district w = ''Other'') (assign_rows ?ds ?df))"
    by simp
  with others have cnt: "stat_winery_count other = 1" by simp
  from others have "filter (\<lambda>w. district w = ''Other'') (assign_rows ?ds ?df) \<noteq> []" by simp
  with rows have one: "map stat_winery_count (filter (\<lambda>s. stat_district s = ''Other'') stats) = [1]"
    by (simp add: cnt)
  show "\<exists>df' stats.
     density_assign_districts_to_wineries rnd ?df ?ds = Inr (df', stats) \<and>
     map district df' = [''Other''] \<and>
     map stat_winery_count (filter (\<lambda>s. stat_district s = ''Other'') stats) = [1]"
  proof (intro exI conjI)
    show "density_assign_districts_to_wineries rnd ?df ?ds = Inr (assign_rows ?ds ?df, stats)"
      by (rule run)
    show "map district (assign_rows ?ds ?df) = [''Other'']" by (rule labels)
    show "map stat_winery_count (filter (\<lambda>s. stat_district s = ''Other'') stats) = [1]"
      by (rule one)
  qed
qed

section \<open>The area of the fallback region\<close>




section \<open>The generated series never decline\<close>

lemma butlast_years: "butlast years = [2014, 2015, 2016, 2017, 2018, 2019, 2020, 2021, 2022, 2023]"
  by code_simp

lemma real_estate_years_props:
  assumes "real_estate_years z d pattern ys price k = Inr (rows, final, k')"
    and "0 \<le> price" and "sorted_wrt (<) (map snd ys)"
  shows "price \<le> final \<and>
         (\<forall>r \<in> set rows. re_district r = d \<and> re_year r \<in> snd ` set ys \<and>
             price \<le> price_eur_sqm r \<and> price_eur_sqm r \<le> final \<and> 0 \<le> re_annual_growth_rate r) \<and>
         (\<forall>r1 \<in> set rows. \<forall>r2 \<in> set rows. re_year r1 \<le> re_year r2 \<longrightarrow>
             price_eur_sqm r1 \<le> price_eur_sqm r2)"
  using assms
proof (induction ys arbitrary: price k rows)
  case Nil
  then show ?case by simp
next
  case (Cons iy ys)
  obtain i year where iy: "iy = (i, year)" by (cases iy)
  define rate where "rate = max 0 (annual_rates pattern ! i + (0 + re_volatility pattern / 10 * z k))"
  define price' where "price' = price * (1 + rate)"
  have rate0: "0 \<le> rate" by (simp add: rate_def)
  have le: "price \<le> price'" using rate0 Cons.prems(2)
    by (simp add: price'_def mult_le_cancel_left1)
  from Cons.prems(1) obtain rows' where
    rec: "real_estate_years z d pattern ys price' (Suc k) = Inr (rows', final, k')"
    and rows: "rows = \<lparr>re_district = d, re_year = year, price_eur_sqm = price,
                    re_annual_growth_rate = rate, price_change_eur = price' - price\<rparr> # rows'"
    by (auto simp: iy np_random_normal_def Let_def rate_def price'_def
             split: if_splits sum.splits)
  from Cons.prems(3) have srt: "sorted_wrt (<) (map snd ys)" and gt: "\<forall>y \<in> snd ` set ys. year < y"
    by (auto simp: iy)
  from le Cons.prems(2) have "0 \<le> price'" by simp
  from Cons.IH [OF rec this srt]
  have ih1: "price' \<le> final"
    and ih2: "\<forall>r \<in> set rows'. re_district r = d \<and> re_year r \<in> snd ` set ys \<and>
             price' \<le> price_eur_sqm r \<and> price_eur_sqm r \<le> final \<and> 0 \<le> re_annual_growth_rate r"
    and ih3: "\<forall>r1 \<in> set rows'. \<forall>r2 \<in> set rows'. re_year r1 \<le> re_year r2 \<longrightarrow>
             price_eur_sqm r1 \<le> price_eur_sqm r2"
    by blast+
  show ?case
    using ih1 ih2 ih3 le rate0 gt
    by (fastforce simp: rows iy)
qed

lemma real_estate_years_total:
  assumes "\<forall>iy \<in> set ys. fst iy < length (annual_rates pattern)"
  shows "\<exists>rows final k'. real_estate_years z d pattern ys price k = Inr (rows, final, k')"
  using assms
proof (induction ys arbitrary: price k)
  case Nil
  then show ?case by simp
next
  case (Cons iy ys)
  obtain i year where iy: "iy = (i, year)" by (cases iy)
  from Cons.prems have i: "i < length (annual_rates pattern)"
    and rest: "\<forall>iy \<in> set ys. fst iy < length (annual_rates pattern)"
    by (simp_all add: iy)
  from Cons.IH [OF rest] obtain rows final k' where
    "real_estate_years z d pattern ys
       (price * (1 + max 0 (annual_rates pattern ! i + (0 + re_volatility pattern / 10 * z k)))) (Suc k)
     = Inr (rows, final, k')"
    by blast
  then show ?case
    by (simp add: iy i np_random_normal_def Let_def)
qed

lemma real_estate_district_props:
  assumes "real_estate_district z (d, pattern) k = Inr (rows, k')"
    and "0 \<le> base_price_2014 pattern"
  shows "(\<forall>r \<in> set rows. re_district r = d \<and> 0 \<le> re_annual_growth_rate r) \<and>
         (\<forall>r1 \<in> set rows. \<forall>r2 \<in> set rows. re_year r1 \<le> re_year r2 \<longrightarrow>
             price_eur_sqm r1 \<le> price_eur_sqm r2)"
proof -
  let ?ys = "enumerate 0 (butlast years)"
  from assms(1) obtain rows0 final where
    run: "real_estate_years z d pattern ?ys (base_price_2014 pattern) k = Inr (rows0, final, k')"
    and rows: "rows = rows0 @ [\<lparr>re_district = d, re_year = 2024, price_eur_sqm = final,
                            re_annual_growth_rate = 0, price_change_eur = 0\<rparr>]"
    by (auto simp: real_estate_district_def Let_def split: sum.splits)
  have srt: "sorted_wrt (<) (map snd ?ys)" by (simp add: butlast_years)
  have yrs: "\<forall>y \<in> snd ` set ?ys. y < 2024"
    by (simp add: butlast_years enumerate_eq_zip)
  from real_estate_years_props [OF run assms(2) srt]
  have p1: "\<forall>r \<in> set rows0. re_district r = d \<and> re_year r \<in> snd ` set ?ys \<and>
             price_eur_sqm r \<le> final \<and> 0 \<le> re_annual_growth_rate r"
    and p2: "\<forall>r1 \<in> set rows0. \<forall>r2 \<in> set rows0. re_year r1 \<le> re_year r2 \<longrightarrow>
             price_eur_sqm r1 \<le> price_eur_sqm r2"
    by blast+
  from p1 yrs have p3: "\<forall>r \<in> set rows0. re_year r < 2024" by blast
  show ?thesis
    using p1 p2 p3 by (fastforce simp: rows)
qed

lemma real_estate_district_total:
  assumes "10 \<le> length (annual_rates pattern)"
  shows "\<exists>rows k'. real_estate_district z (d, pattern) k = Inr (rows, k')"
proof -
  have "\<forall>iy \<in> set (enumerate 0 (butlast years)). fst iy < length (annual_rates pattern)"
    using assms by (auto simp: in_set_enumerate_eq butlast_years)
  from real_estate_years_total [OF this, of z d "base_price_2014 pattern" k]
  show ?thesis by (auto simp: real_estate_district_def Let_def)
qed

lemma real_estate_districts_props:
  assumes "real_estate_districts z patterns k = Inr (rows, k')"
    and "distinct (map fst patterns)"
    and "\<forall>entry \<in> set patterns. 0 \<le> base_price_2014 (snd entry)"
  shows "(\<forall>r \<in> set rows. re_district r \<in> fst ` set patterns \<and> 0 \<le> re_annual_growth_rate r) \<and>
         (\<forall>r1 \<in> set rows. \<forall>r2 \<in> set rows.
             re_district r1 = re_district r2 \<and> re_year r1 \<le> re_year r2 \<longrightarrow>
             price_eur_sqm r1 \<le> price_eur_sqm r2)"
  using assms
proof (induction patterns arbitrary: k rows)
  case Nil
  then show ?case by simp
next
  case (Cons entry patterns)
  obtain d pattern where entry: "entry = (d, pattern)" by (cases entry)
  from Cons.prems(1) obtain rows1 k1 rows2 where
    one: "real_estate_district z (d, pattern) k = Inr (rows1, k1)"
    and more: "real_estate_districts z patterns k1 = Inr (rows2, k')"
    and rows: "rows = rows1 @ rows2"
    by (auto simp: entry split: sum.splits)
  from Cons.prems(3) have base: "0 \<le> base_price_2014 pattern"
    and bases: "\<forall>entry \<in> set patterns. 0 \<le> base_price_2014 (snd entry)"
    by (simp_all add: entry)
  from Cons.prems(2) have new: "d \<notin> fst ` set patterns" and dist: "distinct (map fst patterns)"
    by (simp_all add: entry)
  from real_estate_district_props [OF one base]
  have a1: "\<forall>r \<in> set rows1. re_district r = d \<and> 0 \<le> re_annual_growth_rate r"
    and a2: "\<forall>r1 \<in> set rows1. \<forall>r2 \<in> set rows1. re_year r1 \<le> re_year r2 \<longrightarrow>
             price_eur_sqm r1 \<le> price_eur_sqm r2"
    by blast+
  from Cons.IH [OF more dist bases]
  have b1: "\<forall>r \<in> set rows2. re_district r \<in> fst ` set patterns \<and> 0 \<le> re_annual_growth_rate r"
    and b2: "\<forall>r1 \<in> set rows2. \<forall>r2 \<in> set rows2.
             re_district r1 = re_district r2 \<and> re_year r1 \<le> re_year r2 \<longrightarrow>
             price_eur_sqm r1 \<le> price_eur_sqm r2"
    by blast+
  have c1: "\<forall>r \<in> set rows. re_district r \<in> fst ` set (entry # patterns) \<and> 0 \<le> re_annual_growth_rate r"
    using a1 b1 by (auto simp: rows entry)
  have c2: "price_eur_sqm r1 \<le> price_eur_sqm r2"
    if "r1 \<in> set rows" "r2 \<in> set rows" "re_district r1 = re_district r2" "re_year r1 \<le> re_year r2"
    for r1 r2
  proof (cases "r1 \<in> set rows1")
    case True
    with a1 have "re_district r1 = d" by blast
    with that(3) b1 new have "r2 \<notin> set rows2" by metis
    with that(2) have "r2 \<in> set rows1" by (simp add: rows)
    with a2 True that(4) show ?thesis by blast
  next
    case False
    with that(1) have r1: "r1 \<in> set rows2" by (simp add: rows)
    with b1 new have "re_district r1 \<noteq> d" by metis
    with that(3) a1 have "r2 \<notin> set rows1" by metis
    with that(2) have "r2 \<in> set rows2" by (simp add: rows)
    with b2 r1 that(3,4) show ?thesis by blast
  qed
  from c1 c2 show ?case by blast
qed

lemma real_estate_districts_total:
  assumes "\<forall>entry \<in> set patterns. 10 \<le> length (annual_rates (snd entry))"
  shows "\<exists>rows k'. real_estate_districts z patterns k = Inr (rows, k')"
  using assms
proof (induction patterns arbitrary: k)
  case Nil
  then show ?case by simp
next
  case (Cons entry patterns)
  obtain d pattern where entry: "entry = (d, pattern)" by (cases entry)
  from Cons.prems have "10 \<le> length (annual_rates pattern)" by (simp add: entry)
  from real_estate_district_total [OF this] obtain rows1 k1 where
    one: "real_estate_district z (d, pattern) k = Inr (rows1, k1)" by blast
  from Cons.prems have "\<forall>entry \<in> set patterns. 10 \<le> length (annual_rates (snd entry))" by simp
  from Cons.IH [OF this] obtain rows2 k2 where
    "real_estate_districts z patterns k1 = Inr (rows2, k2)" by blast
  with one show ?case by (simp add: entry)
qed

lemma district_patterns_facts:
  "distinct (map fst district_patterns)"
  "\<forall>entry \<in> set district_patterns. 0 \<le> base_price_2014 (snd entry)"
  "\<forall>entry \<in> set district_patterns. 10 \<le> length (annual_rates (snd entry))"
  by (simp_all add: district_patterns_def Neukoelln_def)

lemma winery_years_props:
  assumes "winery_years z d pattern ys cnt k = (rows, final, k')"
    and "0 \<le> cnt" and "sorted_wrt (<) ys"
  shows "cnt \<le> final \<and>
         (\<forall>r \<in> set rows. wg_district r = d \<and> wg_year r \<in> set ys \<and>
             cnt \<le> winery_count r \<and> winery_count r \<le> final \<and> 0 \<le> wg_annual_growth_rate r) \<and>
         (\<forall>r1 \<in> set rows. \<forall>r2 \<in> set rows. wg_year r1 \<le> wg_year r2 \<longrightarrow>
             winery_count r1 \<le> winery_count r2)"
  using assms
proof (induction ys arbitrary: cnt k rows)
  case Nil
  then show ?case by simp
next
  case (Cons year ys)
  define rate where
    "rate = max 0 (phase_rate (growth_phases pattern) year + (0 + wg_volatility pattern / 5 * z k))"
  define cnt' where "cnt' = cnt * (1 + rate)"
  have rate0: "0 \<le> rate" by (simp add: rate_def)
  have le: "cnt \<le> cnt'" using rate0 Cons.prems(2)
    by (simp add: cnt'_def mult_le_cancel_left1)
  from Cons.prems(1) obtain rows' where
    rec: "winery_years z d pattern ys cnt' (Suc k) = (rows', final, k')"
    and rows: "rows = \<lparr>wg_district = d, wg_year = year, winery_count = cnt,
                    wg_annual_growth_rate = rate, winery_growth_absolute = cnt' - cnt\<rparr> # rows'"
    by (auto simp: np_random_normal_def Let_def rate_def cnt'_def split: prod.splits)
  from Cons.prems(3) have srt: "sorted_wrt (<) ys" and gt: "\<forall>y \<in> set ys. year < y"
    by auto
  from le Cons.prems(2) have "0 \<le> cnt'" by simp
  from Cons.IH [OF rec this srt]
  have ih1: "cnt' \<le> final"
    and ih2: "\<forall>r \<in> set rows'. wg_district r = d \<and> wg_year r \<in> set ys \<and>
             cnt' \<le> winery_count r \<and> winery_count r \<le> final \<and> 0 \<le> wg_annual_growth_rate r"
    and ih3: "\<forall>r1 \<in> set rows'. \<forall>r2 \<in> set rows'. wg_year r1 \<le> wg_year r2 \<longrightarrow>
             winery_count r1 \<le> winery_count r2"
    by blast+
  show ?case
    using ih1 ih2 ih3 le rate0 gt
    by (fastforce simp: rows)
qed

lemma winery_district_props:
  assumes "winery_district z (d, pattern) k = (rows, k')"
    and "0 \<le> base_count_2014 pattern"
  shows "(\<forall>r \<in> set rows. wg_district r = d \<and> 0 \<le> wg_annual_growth_rate r) \<and>
         (\<forall>r1 \<in> set rows. \<forall>r2 \<in> set rows. wg_year r1 \<le> wg_year r2 \<longrightarrow>
             winery_count r1 \<le> winery_count r2)"
proof -
  from assms(1) obtain rows0 final where
    run: "winery_years z d pattern (butlast years) (base_count_2014 pattern) k = (rows0, final, k')"
    and rows: "rows = rows0 @ [\<lparr>wg_district = d, wg_year = 2024, winery_count = final,
                            wg_annual_growth_rate = 0, winery_growth_absolute = 0\<rparr>]"
    by (auto simp: winery_district_def Let_def split: prod.splits)
  have srt: "sorted_wrt (<) (butlast years)" by (simp add: butlast_years)
  have yrs: "\<forall>y \<in> set (butlast years). y < 2024" by (simp add: butlast_years)
  from winery_years_props [OF run assms(2) srt]
  have p1: "\<forall>r \<in> set rows0. wg_district r = d \<and> wg_year r \<in> set (butlast years) \<and>
             winery_count r \<le> final \<and> 0 \<le> wg_annual_growth_rate r"
    and p2: "\<forall>r1 \<in> set rows0. \<forall>r2 \<in> set rows0. wg_year r1 \<le> wg_year r2 \<longrightarrow>
             winery_count r1 \<le> winery_count r2"
    by blast+
  from p1 yrs have p3: "\<forall>r \<in> set rows0. wg_year r < 2024" by blast
  show ?thesis
    using p1 p2 p3 by (fastforce simp: rows)
qed

lemma winery_districts_props:
  assumes "winery_districts z patterns k = (rows, k')"
    and "distinct (map fst patterns)"
    and "\<forall>entry \<in> set patterns. 0 \<le> base_count_2014 (snd entry)"
  shows "(\<forall>r \<in> set rows. wg_district r \<in> fst ` set patterns \<and> 0 \<le> wg_annual_growth_rate r) \<and>
         (\<forall>r1 \<in> set rows. \<forall>r2 \<in> set rows.
             wg_district r1 = wg_district r2 \<and> wg_year r1 \<le> wg_year r2 \<longrightarrow>
             winery_count r1 \<le> winery_count r2)"
  using assms
proof (induction patterns arbitrary: k rows)
  case Nil
  then show ?case by simp
next
  case (Cons entry patterns)
  obtain d pattern where entry: "entry = (d, pattern)" by (cases entry)
  from Cons.prems(1) obtain rows1 k1 rows2 where
    one: "winery_district z (d, pattern) k = (rows1, k1)"
    and more: "winery_districts z patterns k1 = (rows2, k')"
    and rows: "rows = rows1 @ rows2"
    by (auto simp: entry Let_def split: prod.splits)
  from Cons.prems(3) have base: "0 \<le> base_count_2014 pattern"
    and bases: "\<forall>entry \<in> set patterns. 0 \<le> base_count_2014 (snd entry)"
    by (simp_all add: entry)
  from Cons.prems(2) have new: "d \<notin> fst ` set patterns" and dist: "distinct (map fst patterns)"
    by (simp_all add: entry)
  from winery_district_props [OF one base]
  have a1: "\<forall>r \<in> set rows1. wg_district r = d \<and> 0 \<le> wg_annual_growth_rate r"
    and a2: "\<forall>r1 \<in> set rows1. \<forall>r2 \<in> set rows1. wg_year r1 \<le> wg_year r2 \<longrightarrow>
             winery_count r1 \<le> winery_count r2"
    by blast+
  from Cons.IH [OF more dist bases]
  have b1: "\<forall>r \<in> set rows2. wg_district r \<in> fst ` set patterns \<and> 0 \<le> wg_annual_growth_rate r"
    and b2: "\<forall>r1 \<in> set rows2. \<forall>r2 \<in> set rows2.
             wg_district r1 = wg_district r2 \<and> wg_year r1 \<le> wg_year r2 \<longrightarrow>
             winery_count r1 \<le> winery_count r2"
    by blast+
  have c1: "\<forall>r \<in> set rows. wg_district r \<in> fst ` set (entry # patterns) \<and> 0 \<le> wg_annual_growth_rate r"
    using a1 b1 by (auto simp: rows entry)
  have c2: "winery_count r1 \<le> winery_count r2"
    if "r1 \<in> set rows" "r2 \<in> set rows" "wg_district r1 = wg_district r2" "wg_year r1 \<le> wg_year r2"
    for r1 r2
  proof (cases "r1 \<in> set rows1")
    case True
    with a1 have "wg_district r1 = d" by blast
    with that(3) b1 new have "r2 \<notin> set rows2" by metis
    with that(2) have "r2 \<in> set rows1" by (simp add: rows)
    with a2 True that(4) show ?thesis by blast
  next
    case False
    with that(1) have r1: "r1 \<in> set rows2" by (simp add: rows)
    with b1 new have "wg_district r1 \<noteq> d" by metis
    with that(3) a1 have "r2 \<notin> set rows1" by metis
    with that(2) have "r2 \<in> set rows2" by (simp add: rows)
    with b2 r1 that(3,4) show ?thesis by blast
  qed
  from c1 c2 show ?case by blast
qed

lemma winery_patterns_facts:
  "distinct (map fst winery_patterns)"
  "\<forall>entry \<in> set winery_patterns. 0 \<le> base_count_2014 (snd entry)"
  by (simp_all add: winery_patterns_def Neukoelln_def)

text \<open>
  Claim C10. In both generated datasets every annual growth rate is at least 0, whatever
  the random draws are, and within a district a later year never has a smaller price or
  a smaller winery count than an earlier one. Both generators return a table.
\<close>

theorem generated_series_never_decline:
  "(\<exists>rows k'. get_annual_real_estate_data z k = Inr (rows, k') \<and>
      (\<forall>r \<in> set rows. 0 \<le> re_annual_growth_rate r) \<and>
      (\<forall>r1 \<in> set rows. \<forall>r2 \<in> set rows.
          re_district r1 = re_district r2 \<and> re_year r1 \<le> re_year r2 \<longrightarrow>
          price_eur_sqm r1 \<le> price_eur_sqm r2)) \<and>
   (\<forall>r \<in> set (fst (get_annual_winery_growth_data z k)). 0 \<le> wg_annual_growth_rate r) \<and>
   (\<forall>r1 \<in> set (fst (get_annual_winery_growth_data z k)).
      \<forall>r2 \<in> set (fst (get_annual_winery_growth_data z k)).
        wg_district r1 = wg_district r2 \<and> wg_year r1 \<le> wg_year r2 \<longrightarrow>
        winery_count r1 \<le> winery_count r2)"
proof -
  from real_estate_districts_total [OF district_patterns_facts(3)] obtain rows k' where
    re: "real_estate_districts z district_patterns k = Inr (rows, k')" by blast
  from real_estate_districts_props [OF re district_patterns_facts(1,2)]
  have re_ok: "(\<forall>r \<in> set rows. 0 \<le> re_annual_growth_rate r) \<and>
      (\<forall>r1 \<in> set rows. \<forall>r2 \<in> set rows.
          re_district r1 = re_district r2 \<and> re_year r1 \<le> re_year r2 \<longrightarrow>
          price_eur_sqm r1 \<le> price_eur_sqm r2)"
    by blast
  obtain wrows wk where wg: "winery_districts z winery_patterns k = (wrows, wk)"
    by (cases "winery_districts z winery_patterns k")
  from winery_districts_props [OF wg winery_patterns_facts]
  have wg_ok: "(\<forall>r \<in> set wrows. 0 \<le> wg_annual_growth_rate r) \<and>
      (\<forall>r1 \<in> set wrows. \<forall>r2 \<in> set wrows.
          wg_district r1 = wg_district r2 \<and> wg_year r1 \<le> wg_year r2 \<longrightarrow>
          winery_count r1 \<le> winery_count r2)"
    by blast
  from re re_ok wg wg_ok show ?thesis
    by (simp add: get_annual_real_estate_data_def get_annual_winery_growth_data_def)
qed

text \<open>
  With all draws equal to 0, the winery count of the first district in 2015 is not below
  that of 2014, and its price of 2016 is not below that of 2015.
\<close>

theorem generated_series_never_decline_witness:
  "winery_count (fst (get_annual_winery_growth_data (\<lambda>n. 0) 0) ! 0)
     \<le> winery_count (fst (get_annual_winery_growth_data (\<lambda>n. 0) 0) ! 1) \<and>
   (\<exists>rows k'. get_annual_real_estate_data (\<lambda>n. 0) 0 = Inr (rows, k') \<and>
      price_eur_sqm (rows ! 1) \<le> price_eur_sqm (rows ! 2))"
proof -
  let ?z = "\<lambda>n::nat. 0::real"
  let ?w = "fst (get_annual_winery_growth_data ?z 0)"
  have w: "(length ?w, map (\<lambda>r. (wg_district r, wg_year r)) (take 2 ?w))
             = (66, [(Neukoelln, 2014), (Neukoelln, 2015)])"
    by code_simp
  then have wl: "length ?w = 66" by simp
  from generated_series_never_decline [of ?z 0] obtain rows k' where
    re: "get_annual_real_estate_data ?z 0 = Inr (rows, k')"
    and re_mono: "\<forall>r1 \<in> set rows. \<forall>r2 \<in> set rows.
          re_district r1 = re_district r2 \<and> re_year r1 \<le> re_year r2 \<longrightarrow>
          price_eur_sqm r1 \<le> price_eur_sqm r2"
    and wg_mono: "\<forall>r1 \<in> set ?w. \<forall>r2 \<in> set ?w.
        wg_district r1 = wg_district r2 \<and> wg_year r1 \<le> wg_year r2 \<longrightarrow>
        winery_count r1 \<le> winery_count r2"
    by blast
  have "(case get_annual_real_estate_data ?z 0 of
           Inr (rows, k') \<Rightarrow> (length rows, map (\<lambda>r. (re_district r, re_year r)) (take 3 rows))
         | Inl e \<Rightarrow> (0, []))
        = (66, [(Neukoelln, 2014), (Neukoelln, 2015), (Neukoelln, 2016)])"
    by code_simp
  with re have rl: "length rows = 66"
    and r: "map (\<lambda>r. (re_district r, re_year r)) (take 3 rows)
              = [(Neukoelln, 2014), (Neukoelln, 2015), (Neukoelln, 2016)]"
    by simp_all
  have w0: "?w ! 0 \<in> set ?w" and w1: "?w ! 1 \<in> set ?w" using wl by simp_all
  from w wl have "wg_district (?w ! 0) = wg_district (?w ! 1) \<and> wg_year (?w ! 0) \<le> wg_year (?w ! 1)"
    by (simp add: take_Suc_conv_app_nth numeral_2_eq_2)
  with wg_mono w0 w1 have a: "winery_count (?w ! 0) \<le> winery_count (?w ! 1)" by blast
  have r1: "rows ! 1 \<in> set rows" and r2: "rows ! 2 \<in> set rows" using rl by simp_all
  from r rl have "re_district (rows ! 1) = re_district (rows ! 2) \<and> re_year (rows ! 1) \<le> re_year (rows ! 2)"
    by (simp add: take_Suc_conv_app_nth numeral_3_eq_3 numeral_2_eq_2)
  with re_mono r1 r2 have b: "price_eur_sqm (rows ! 1) \<le> price_eur_sqm (rows ! 2)" by blast
  from a b re show ?thesis by blast
qed

section \<open>Properties of the lagged cross-correlation\<close>











section \<open>Properties of the best lag\<close>






section \<open>Properties of the historical simulation\<close>

lemma rev_years: "rev years = [2024, 2023, 2022, 2021, 2020, 2019, 2018, 2017, 2016, 2015, 2014]"
  by code_simp

lemma history_years_draws:
  assumes "history_years z n c cd cc area ys k = Inr (rows, k')"
  shows "k' = k + length (filter (\<lambda>y. y \<noteq> 2024) ys) \<and> length rows = length ys"
  using assms
proof (induction ys arbitrary: k rows)
  case Nil
  then show ?case by simp
next
  case (Cons y ys)
  show ?case
  proof (cases "y = 2024")
    case True
    with Cons.prems obtain rows0 where
      "history_years z n c cd cc area ys k = Inr (rows0, k')" and "rows = history_entry_of n c area y cd cc # rows0"
      by (auto split: sum.splits)
    with Cons.IH [of k rows0] True show ?thesis by simp
  next
    case False
    with Cons.prems obtain d rows0 where
      "history_years z n c cd cc area ys (Suc k) = Inr (rows0, k')"
      and "rows = history_entry_of n c area y d (py_int (d * area)) # rows0"
      by (auto simp: np_random_normal_def Let_def split: sum.splits)
    with Cons.IH [of "Suc k" rows0] False show ?thesis by simp
  qed
qed

lemma history_years_local:
  assumes "\<forall>j < length (filter (\<lambda>y. y \<noteq> 2024) ys). z' (k + j) = z (k + j)"
  shows "history_years z' n c cd cc area ys k = history_years z n c cd cc area ys k"
  using assms
proof (induction ys arbitrary: k)
  case Nil
  then show ?case by simp
next
  case (Cons y ys)
  show ?case
  proof (cases "y = 2024")
    case True
    with Cons.prems have "\<forall>j < length (filter (\<lambda>y. y \<noteq> 2024) ys). z' (k + j) = z (k + j)" by simp
    from Cons.IH [OF this] True show ?thesis by simp
  next
    case False
    with Cons.prems have here: "z' k = z k" by auto
    have "\<forall>j < length (filter (\<lambda>y. y \<noteq> 2024) ys). z' (Suc k + j) = z (Suc k + j)"
    proof (intro allI impI)
      fix j assume "j < length (filter (\<lambda>y. y \<noteq> 2024) ys)"
      then have "Suc j < length (filter (\<lambda>y. y \<noteq> 2024) (y # ys))" using False by simp
      with Cons.prems have "z' (k + Suc j) = z (k + Suc j)" by blast
      then show "z' (Suc k + j) = z (Suc k + j)" by simp
    qed
    from Cons.IH [OF this]
    have ih: "history_years z' n c cd cc area ys (Suc k) = history_years z n c cd cc area ys (Suc k)" .
    show ?thesis using False
      by (simp add: np_random_normal_def Let_def here ih cong: sum.case_cong)
  qed
qed

lemma history_years_district:
  assumes "history_years z n c cd cc area ys k = Inr (rows, k')"
  shows "\<forall>r \<in> set rows. h_district r = n"
  using assms
proof (induction ys arbitrary: k rows)
  case Nil
  then show ?case by simp
next
  case (Cons y ys)
  show ?case
  proof (cases "y = 2024")
    case True
    with Cons.prems obtain rows0 where
      "history_years z n c cd cc area ys k = Inr (rows0, k')" and "rows = history_entry_of n c area y cd cc # rows0"
      by (auto split: sum.splits)
    with Cons.IH [of k rows0] show ?thesis by (simp add: history_entry_of_def)
  next
    case False
    with Cons.prems obtain d rows0 where
      "history_years z n c cd cc area ys (Suc k) = Inr (rows0, k')"
      and "rows = history_entry_of n c area y d (py_int (d * area)) # rows0"
      by (auto simp: np_random_normal_def Let_def split: sum.splits)
    with Cons.IH [of "Suc k" rows0] show ?thesis by (simp add: history_entry_of_def)
  qed
qed

lemma yoy_rates_fields:
  "length (yoy_rates p es) = length es \<and>
   (\<forall>i < length es. h_district (yoy_rates p es ! i) = h_district (es ! i) \<and>
      h_year (yoy_rates p es ! i) = h_year (es ! i) \<and>
      h_density (yoy_rates p es ! i) = h_density (es ! i) \<and>
      h_count (yoy_rates p es ! i) = h_count (es ! i))"
proof (induction es arbitrary: p)
  case Nil
  then show ?case by simp
next
  case (Cons e es)
  show ?case using Cons.IH
    by (auto simp: Let_def history_entry.extend_def nth_Cons split: nat.splits)
qed

lemma add_yoy_fields:
  assumes "add_yoy_growth_rates es = Inr rows"
  shows "length rows = length es \<and>
   (\<forall>i < length es. h_district (rows ! i) = h_district (es ! i) \<and>
      h_year (rows ! i) = h_year (es ! i) \<and>
      h_density (rows ! i) = h_density (es ! i) \<and>
      h_count (rows ! i) = h_count (es ! i))"
proof -
  from assms obtain e es' where es: "es = e # es'"
    and rows: "rows = history_entry.extend e \<lparr>yoy_growth_rate = 0.0\<rparr> # yoy_rates (h_density e) es'"
    by (auto simp: add_yoy_growth_rates_def split: list.splits)
  show ?thesis using yoy_rates_fields [of "h_density e" es']
    by (auto simp: es rows history_entry.extend_def nth_Cons split: nat.splits)
qed

lemma district_history_draws:
  assumes "district_history z df entry c k = Inr (rows, k')"
  shows "k' = k + 10 \<and> (\<forall>r \<in> set rows. h_district r = fst entry)"
proof -
  from assms obtain rows0 where
    run: "history_years z (fst entry) c (current_density_of df (fst entry) (area_km2 (snd entry)))
            (current_count_of df (fst entry)) (area_km2 (snd entry)) (rev years) k = Inr (rows0, k')"
    and yoy: "add_yoy_growth_rates (rev rows0) = Inr rows"
    by (auto simp: district_history_def Let_def split: sum.splits)
  from history_years_draws [OF run] have k': "k' = k + 10" by (simp add: rev_years)
  from history_years_district [OF run] have d0: "\<forall>r \<in> set (rev rows0). h_district r = fst entry" by simp
  from add_yoy_fields [OF yoy] have len: "length rows = length (rev rows0)"
    and same: "\<forall>i < length (rev rows0). h_district (rows ! i) = h_district (rev rows0 ! i)"
    by blast+
  have "\<forall>r \<in> set rows. h_district r = fst entry"
  proof
    fix r assume "r \<in> set rows"
    then obtain i where i: "i < length rows" and r: "r = rows ! i" by (metis in_set_conv_nth)
    with len same have "h_district r = h_district (rev rows0 ! i)" by simp
    moreover have "rev rows0 ! i \<in> set (rev rows0)" using i len by (metis nth_mem)
    ultimately show "h_district r = fst entry" using d0 by simp
  qed
  with k' show ?thesis by blast
qed

lemma district_history_local:
  assumes "\<forall>j < 10. z' (k + j) = z (k + j)"
  shows "district_history z' df entry c k = district_history z df entry c k"
proof -
  have "length (filter (\<lambda>y. y \<noteq> 2024) (rev years)) = 10" by (simp add: rev_years)
  with assms have "\<forall>j < length (filter (\<lambda>y. y \<noteq> 2024) (rev years)). z' (k + j) = z (k + j)" by simp
  from history_years_local [OF this] show ?thesis by (simp add: district_history_def)
qed

lemma simulate_districts_names:
  assumes "simulate_districts z df ctx ds k = Inr (rows, k')"
  shows "\<forall>r \<in> set rows. h_district r \<in> fst ` set ds"
  using assms
proof (induction ds arbitrary: k rows)
  case Nil
  then show ?case by simp
next
  case (Cons entry ds)
  show ?case
  proof (cases "ctx (fst entry)")
    case None
    with Cons.prems have "simulate_districts z df ctx ds k = Inr (rows, k')" by simp
    from Cons.IH [OF this] show ?thesis by auto
  next
    case (Some c0)
    with Cons.prems obtain rows1 k1 rows2 where
      one: "district_history z df entry c0 k = Inr (rows1, k1)"
      and more: "simulate_districts z df ctx ds k1 = Inr (rows2, k')"
      and rows: "rows = rows1 @ rows2"
      by (auto split: sum.splits)
    from district_history_draws [OF one] Cons.IH [OF more] show ?thesis
      by (auto simp: rows)
  qed
qed

lemma simulate_districts_block:
  assumes "simulate_districts z df ctx ds k = Inr (rows, k')"
    and "i < length ds" and "ctx (fst (ds ! i)) = Some c" and "distinct (map fst ds)"
  shows "district_history z df (ds ! i) c
           (k + 10 * length (filter (\<lambda>e. ctx (fst e) \<noteq> None) (take i ds)))
         = Inr (filter (\<lambda>r. h_district r = fst (ds ! i)) rows,
                k + 10 * length (filter (\<lambda>e. ctx (fst e) \<noteq> None) (take i ds)) + 10)"
  using assms
proof (induction ds arbitrary: k rows i)
  case Nil
  then show ?case by simp
next
  case (Cons entry ds)
  from Cons.prems(4) have new: "fst entry \<notin> fst ` set ds" and dist: "distinct (map fst ds)"
    by simp_all
  show ?case
  proof (cases "ctx (fst entry)")
    case None
    with Cons.prems(1) have run: "simulate_districts z df ctx ds k = Inr (rows, k')" by simp
    from None Cons.prems(3) obtain i' where i: "i = Suc i'" by (cases i) auto
    with Cons.prems(2,3) have "i' < length ds" and "ctx (fst (ds ! i')) = Some c" by simp_all
    from Cons.IH [OF run this dist] None show ?thesis by (simp add: i)
  next
    case (Some c0)
    with Cons.prems(1) obtain rows1 k1 rows2 where
      one: "district_history z df entry c0 k = Inr (rows1, k1)"
      and more: "simulate_districts z df ctx ds k1 = Inr (rows2, k')"
      and rows: "rows = rows1 @ rows2"
      by (auto split: sum.splits)
    from district_history_draws [OF one] have k1: "k1 = k + 10"
      and names1: "\<forall>r \<in> set rows1. h_district r = fst entry" by blast+
    from simulate_districts_names [OF more] have names2: "\<forall>r \<in> set rows2. h_district r \<in> fst ` set ds" .
    show ?thesis
    proof (cases i)
      case 0
      with Cons.prems(3) Some have c: "c = c0" by simp
      have "filter (\<lambda>r. h_district r = fst entry) rows1 = rows1" using names1 by simp
      moreover have "filter (\<lambda>r. h_district r = fst entry) rows2 = []"
        unfolding filter_empty_conv using names2 new by metis
      ultimately show ?thesis using one by (simp add: 0 c rows k1)
    next
      case (Suc i')
      with Cons.prems(2,3) have i': "i' < length ds" and ci: "ctx (fst (ds ! i')) = Some c" by simp_all
      from i' have "fst (ds ! i') \<in> fst ` set ds" by simp
      with new have "fst (ds ! i') \<noteq> fst entry" by metis
      with names1 have "filter (\<lambda>r. h_district r = fst (ds ! i')) rows1 = []"
        unfolding filter_empty_conv by metis
      with Cons.IH [OF more i' ci dist] Some show ?thesis
        by (simp add: Suc rows k1 add.assoc)
    qed
  qed
qed

lemma catalog_distinct: "distinct (map fst get_district_boundaries_and_areas)"
  by (simp add: get_district_boundaries_and_areas_def Neukoelln_def Schoeneberg_def)

text \<open>
  Claim C1, amended. The simulation draws all its noise from one sequence, started once
  at seed 42: the series of a region is the per-region synthesis run on the ten draws that
  begin at position \<open>10 * p\<close>, where \<open>p\<close> is the number of regions processed before it
  (cataloged earlier and present in the context), and it depends on no other draw. With
  the same sequence and the same inputs the output is the same, since it is a function of
  them; the noise of a region and year is not a function of seed, region name and year
  alone.
\<close>

theorem noise_position_depends_on_regions_before:
  assumes "simulate_historical_winery_development z current_df ctx = Inr rows"
    and "i < length get_district_boundaries_and_areas"
    and "ctx (fst (get_district_boundaries_and_areas ! i)) = Some c"
    and "p = length (filter (\<lambda>e. ctx (fst e) \<noteq> None) (take i get_district_boundaries_and_areas))"
  shows "district_history z (assign_districts_to_wineries current_df)
           (get_district_boundaries_and_areas ! i) c (10 * p)
         = Inr (filter (\<lambda>r. h_district r = fst (get_district_boundaries_and_areas ! i)) rows,
                10 * p + 10) \<and>
         (\<forall>z'. (\<forall>j < 10. z' (10 * p + j) = z (10 * p + j)) \<longrightarrow>
            district_history z' (assign_districts_to_wineries current_df)
              (get_district_boundaries_and_areas ! i) c (10 * p)
            = district_history z (assign_districts_to_wineries current_df)
              (get_district_boundaries_and_areas ! i) c (10 * p))"
proof -
  from assms(1) obtain k' where
    run: "simulate_districts z (assign_districts_to_wineries current_df) ctx
            get_district_boundaries_and_areas 0 = Inr (rows, k')"
    by (auto simp: simulate_historical_winery_development_def Let_def split: sum.splits)
  from simulate_districts_block [OF run assms(2,3) catalog_distinct]
  have "district_history z (assign_districts_to_wineries current_df)
           (get_district_boundaries_and_areas ! i) c (10 * p)
         = Inr (filter (\<lambda>r. h_district r = fst (get_district_boundaries_and_areas ! i)) rows,
                10 * p + 10)"
    by (simp add: assms(4))
  then show ?thesis using district_history_local by blast
qed

lemma history_years_nth:
  assumes "history_years z n c cd cc area ys k = Inr (rows, k')"
    and "i < length ys" and "ys ! i \<noteq> 2024"
  shows "\<exists>d. historical_density cd (base_growth_rate c)
                (if ys ! i \<in> set (peak_growth_years c) then 1.3 else 1.0)
                (1.0 + 0.1 * z (k + length (filter (\<lambda>y. y \<noteq> 2024) (take i ys))))
                (nat (2024 - ys ! i)) = Inr d \<and>
              rows ! i = history_entry_of n c area (ys ! i) d (py_int (d * area))"
  using assms
proof (induction ys arbitrary: k rows i)
  case Nil
  then show ?case by simp
next
  case (Cons y ys)
  show ?case
  proof (cases "y = 2024")
    case True
    with Cons.prems(1) obtain rows0 where
      run: "history_years z n c cd cc area ys k = Inr (rows0, k')"
      and rows: "rows = history_entry_of n c area y cd cc # rows0"
      by (auto split: sum.splits)
    from True Cons.prems(3) obtain i' where i: "i = Suc i'" by (cases i) auto
    with Cons.prems(2,3) have "i' < length ys" and "ys ! i' \<noteq> 2024" by simp_all
    from Cons.IH [OF run this] True show ?thesis by (simp add: i rows)
  next
    case False
    with Cons.prems(1) obtain d rows0 where
      here: "historical_density cd (base_growth_rate c)
                (if y \<in> set (peak_growth_years c) then 1.3 else 1.0) (1.0 + 0.1 * z k)
                (nat (2024 - y)) = Inr d"
      and run: "history_years z n c cd cc area ys (Suc k) = Inr (rows0, k')"
      and rows: "rows = history_entry_of n c area y d (py_int (d * area)) # rows0"
      by (auto simp: np_random_normal_def Let_def split: sum.splits)
    show ?thesis
    proof (cases i)
      case 0
      with here show ?thesis by (simp add: rows)
    next
      case (Suc i')
      with Cons.prems(2,3) have "i' < length ys" and "ys ! i' \<noteq> 2024" by simp_all
      from Cons.IH [OF run this] False show ?thesis by (simp add: Suc rows)
    qed
  qed
qed

lemma rev_years_nth:
  assumes "1 \<le> i" and "i \<le> 10"
  shows "rev years ! i = 2024 - int i \<and>
         length (filter (\<lambda>y. y \<noteq> 2024) (take i (rev years))) = i - 1"
proof -
  from assms have "i \<in> {1, 2, 3, 4, 5, 6, 7, 8, 9, 10}" by simp presburger
  then show ?thesis by (auto simp: rev_years)
qed

text \<open>The row of an earlier year \<open>y\<close> in the chronological series of one district.\<close>

lemma district_history_row:
  assumes "district_history z df entry c k = Inr (rows, k')"
    and "2014 \<le> y" and "y < 2024"
  shows "\<exists>d. historical_density (current_density_of df (fst entry) (area_km2 (snd entry)))
                (base_growth_rate c) (if y \<in> set (peak_growth_years c) then 1.3 else 1.0)
                (1.0 + 0.1 * z (k + nat (2023 - y))) (nat (2024 - y)) = Inr d \<and>
              length rows = 11 \<and>
              h_year (rows ! nat (y - 2014)) = y \<and>
              h_district (rows ! nat (y - 2014)) = fst entry \<and>
              h_density (rows ! nat (y - 2014)) = py_round d 4 \<and>
              h_count (rows ! nat (y - 2014)) = py_int (d * area_km2 (snd entry))"
proof -
  let ?cd = "current_density_of df (fst entry) (area_km2 (snd entry))"
  from assms(1) obtain rows0 where
    run: "history_years z (fst entry) c ?cd (current_count_of df (fst entry)) (area_km2 (snd entry))
            (rev years) k = Inr (rows0, k')"
    and yoy: "add_yoy_growth_rates (rev rows0) = Inr rows"
    by (auto simp: district_history_def Let_def split: sum.splits)
  from history_years_draws [OF run] have len0: "length rows0 = 11" by (simp add: rev_years)
  define i where "i = nat (2024 - y)"
  define j where "j = nat (y - 2014)"
  from assms(2,3) have i: "1 \<le> i" "i \<le> 10" and ij: "i = 10 - j" and j: "j < 11"
    and yi: "2024 - int i = y" and ki: "i - 1 = nat (2023 - y)"
    by (simp_all add: i_def j_def)
  from rev_years_nth [OF i] yi ki have at: "rev years ! i = y"
    and cnt: "length (filter (\<lambda>y. y \<noteq> 2024) (take i (rev years))) = nat (2023 - y)"
    by simp_all
  have il: "i < length (rev years)" using i by (simp add: rev_years)
  have ne: "rev years ! i \<noteq> 2024" using at assms(3) by simp
  from history_years_nth [OF run il ne] at cnt obtain d where
    d: "historical_density ?cd (base_growth_rate c)
          (if y \<in> set (peak_growth_years c) then 1.3 else 1.0)
          (1.0 + 0.1 * z (k + nat (2023 - y))) (nat (2024 - y)) = Inr d"
    and row: "rows0 ! i = history_entry_of (fst entry) c (area_km2 (snd entry)) y d
                (py_int (d * area_km2 (snd entry)))"
    by (auto simp: i_def)
  have "rev rows0 ! j = rows0 ! i" using j len0 ij by (simp add: rev_nth)
  with row have revrow: "rev rows0 ! j = history_entry_of (fst entry) c (area_km2 (snd entry)) y d
                (py_int (d * area_km2 (snd entry)))" by simp
  from add_yoy_fields [OF yoy] len0 j have len: "length rows = 11"
    and f: "h_district (rows ! j) = h_district (rev rows0 ! j)"
      "h_year (rows ! j) = h_year (rev rows0 ! j)"
      "h_density (rows ! j) = h_density (rev rows0 ! j)"
      "h_count (rows ! j) = h_count (rev rows0 ! j)"
    by simp_all
  from d len f show ?thesis
    unfolding revrow j_def [symmetric] by (simp add: history_entry_of_def)
qed

lemma historical_density_positive:
  assumes "0 \<le> base" and "0 \<le> modifier" and "0 \<le> factor"
  shows "historical_density cd base modifier factor n = Inr (max 0 (cd / (1 + base * modifier * factor) ^ n))"
proof -
  from assms have "0 \<le> base * modifier * factor" by simp
  then have "(1 + base * modifier * factor) ^ n \<noteq> 0" by simp
  then show ?thesis by (simp add: historical_density_def Let_def)
qed

lemma history_years_total:
  assumes "0 \<le> base_growth_rate c" and "\<forall>m. - 10 \<le> z m"
  shows "\<exists>rows k'. history_years z n c cd cc area ys k = Inr (rows, k')"
proof (induction ys arbitrary: k)
  case Nil
  then show ?case by simp
next
  case (Cons y ys)
  from assms(2) have "- 10 \<le> z k" by blast
  then have f: "0 \<le> 1.0 + 0.1 * z k" by simp
  have m: "(0::real) \<le> (if y \<in> set (peak_growth_years c) then 1.3 else 1.0)" by simp
  from Cons [of k] Cons [of "Suc k"] historical_density_positive [OF assms(1) m f]
  show ?case
    by (auto simp: np_random_normal_def Let_def split: sum.splits)
qed

lemma district_history_total:
  assumes "0 \<le> base_growth_rate c" and "\<forall>m. - 10 \<le> z m"
  shows "\<exists>rows k'. district_history z df entry c k = Inr (rows, k')"
proof -
  from history_years_total [OF assms] obtain rows0 k' where
    run: "history_years z (fst entry) c (current_density_of df (fst entry) (area_km2 (snd entry)))
            (current_count_of df (fst entry)) (area_km2 (snd entry)) (rev years) k = Inr (rows0, k')"
    by blast
  from history_years_draws [OF run] have "length (rev rows0) = 11" by (simp add: rev_years)
  then obtain e es where "rev rows0 = e # es" by (cases "rev rows0") auto
  then have "\<exists>rows. add_yoy_growth_rates (rev rows0) = Inr rows"
    by (simp add: add_yoy_growth_rates_def)
  with run show ?thesis by (auto simp: district_history_def Let_def)
qed

lemma simulate_districts_total:
  assumes "\<forall>c \<in> ran ctx. 0 \<le> base_growth_rate c" and "\<forall>m. - 10 \<le> z m"
  shows "\<exists>rows k'. simulate_districts z df ctx ds k = Inr (rows, k')"
proof (induction ds arbitrary: k)
  case Nil
  then show ?case by simp
next
  case (Cons entry ds)
  show ?case
  proof (cases "ctx (fst entry)")
    case None
    with Cons [of k] show ?thesis by simp
  next
    case (Some c)
    then have "c \<in> ran ctx" by (auto simp: ran_def)
    with assms(1) have "0 \<le> base_growth_rate c" by blast
    from district_history_total [OF this assms(2)] obtain rows1 k1 where
      "district_history z df entry c k = Inr (rows1, k1)" by blast
    with Cons [of k1] Some show ?thesis by auto
  qed
qed

lemma simulate_total:
  assumes "\<forall>c \<in> ran ctx. 0 \<le> base_growth_rate c" and "\<forall>m. - 10 \<le> z m"
  shows "\<exists>rows. simulate_historical_winery_development z current_df ctx = Inr rows"
  using simulate_districts_total [OF assms, of "assign_districts_to_wineries current_df"
      get_district_boundaries_and_areas 0]
  by (auto simp: simulate_historical_winery_development_def Let_def)

lemma py_round_eqI:
  assumes "of_int n - 1 / 2 < x * 10 ^ d" and "x * 10 ^ d < of_int n + 1 / 2"
  shows "py_round x d = of_int n / 10 ^ d"
proof -
  let ?x = "x * 10 ^ d"
  have "\<lfloor>?x\<rfloor> = n \<or> \<lfloor>?x\<rfloor> = n - 1" using assms by linarith
  then have "round_half_even ?x = n"
  proof
    assume f: "\<lfloor>?x\<rfloor> = n"
    then have "?x - of_int \<lfloor>?x\<rfloor> < 1 / 2" using assms by simp
    then show ?thesis by (simp add: round_half_even_def Let_def f)
  next
    assume f: "\<lfloor>?x\<rfloor> = n - 1"
    then have "1 / 2 < ?x - of_int \<lfloor>?x\<rfloor>" using assms by simp
    then show ?thesis by (simp add: round_half_even_def Let_def f)
  qed
  then show ?thesis by (simp add: py_round_def)
qed

lemma catalog_second: "get_district_boundaries_and_areas ! Suc 0
    = (Neukoelln, \<lparr>bounds = box 52.450 52.500 13.400 13.470, area_km2 = 44.9\<rparr>)"
  by (simp add: get_district_boundaries_and_areas_def)

lemma neukoelln_present_density:
  "current_density_of (assign_districts_to_wineries [winery_in_neukoelln]) Neukoelln 44.9 = 10 / 449"
  by code_simp

lemma neukoelln_2023_row:
  assumes "district_history z (assign_districts_to_wineries [winery_in_neukoelln])
             (get_district_boundaries_and_areas ! 1) context_neukoelln k = Inr (rows, k')"
    and "0 \<le> 1 + 0.1 * z k"
  shows "h_year (rows ! 9) = 2023 \<and>
         h_density (rows ! 9) = py_round (max 0 (10 / 449 / (1 + 0.15 * (1 + 0.1 * z k)))) 4"
proof -
  have y: "(2014::int) \<le> 2023" "(2023::int) < 2024" by simp_all
  have m: "(if (2023::int) \<in> set (peak_growth_years context_neukoelln) then 1.3 else 1.0) = (1::real)"
    by (simp add: context_neukoelln_def)
  have b: "base_growth_rate context_neukoelln = 0.15" by (simp add: context_neukoelln_def)
  from district_history_row [OF assms(1) y] obtain d where
    d: "historical_density (10 / 449) 0.15 1 (1.0 + 0.1 * z k) 1 = Inr d"
    and yr: "h_year (rows ! 9) = 2023" and dens: "h_density (rows ! 9) = py_round d 4"
    unfolding m b by (auto simp: catalog_second neukoelln_present_density)
  have "historical_density (10 / 449) 0.15 1 (1.0 + 0.1 * z k) 1
          = Inr (max 0 (10 / 449 / (1 + 0.15 * 1 * (1.0 + 0.1 * z k)) ^ 1))"
    using assms(2) by (intro historical_density_positive) simp_all
  with d have "d = max 0 (10 / 449 / (1 + 0.15 * (1 + 0.1 * z k)))" by simp
  with yr dens show ?thesis by simp
qed

lemma example_contexts_total:
  "\<forall>c \<in> ran [Neukoelln \<mapsto> context_neukoelln]. 0 \<le> base_growth_rate c"
  "\<forall>c \<in> ran [Neukoelln \<mapsto> context_neukoelln, ''Prenzlauer Berg'' \<mapsto> context_prenzlauer_berg].
      0 \<le> base_growth_rate c"
  "\<forall>m. - 10 \<le> draws_high_then_low m"
  by (auto simp: ran_def context_neukoelln_def context_prenzlauer_berg_def draws_high_then_low_def
           split: if_splits)

text \<open>
  With Prenzlauer Berg and Neuk\"olln in the context, Neuk\"olln is the second region
  processed and its series is synthesized from the draws 10 to 19.
\<close>

theorem noise_position_depends_on_regions_before_witness:
  "\<exists>rows. simulate_historical_winery_development draws_high_then_low [winery_in_neukoelln]
              [Neukoelln \<mapsto> context_neukoelln, ''Prenzlauer Berg'' \<mapsto> context_prenzlauer_berg]
            = Inr rows \<and>
          district_history draws_high_then_low (assign_districts_to_wineries [winery_in_neukoelln])
            (get_district_boundaries_and_areas ! 1) context_neukoelln 10
            = Inr (filter (\<lambda>r. h_district r = Neukoelln) rows, 20)"
proof -
  let ?ctx = "[Neukoelln \<mapsto> context_neukoelln, ''Prenzlauer Berg'' \<mapsto> context_prenzlauer_berg]"
  from simulate_total [OF example_contexts_total(2,3)] obtain rows where
    run: "simulate_historical_winery_development draws_high_then_low [winery_in_neukoelln] ?ctx = Inr rows"
    by blast
  have i: "1 < length get_district_boundaries_and_areas"
    by (simp add: get_district_boundaries_and_areas_def)
  have n: "fst (get_district_boundaries_and_areas ! 1) = Neukoelln" by (simp add: catalog_second)
  have c: "?ctx (fst (get_district_boundaries_and_areas ! 1)) = Some context_neukoelln"
    unfolding n by (simp add: Neukoelln_def)
  have p: "(1::nat) = length (filter (\<lambda>e. ?ctx (fst e) \<noteq> None) (take 1 get_district_boundaries_and_areas))"
    by (simp add: get_district_boundaries_and_areas_def)
  from noise_position_depends_on_regions_before [OF run i c p]
  have "district_history draws_high_then_low (assign_districts_to_wineries [winery_in_neukoelln])
            (get_district_boundaries_and_areas ! 1) context_neukoelln (10 * 1)
            = Inr (filter (\<lambda>r. h_district r = fst (get_district_boundaries_and_areas ! 1)) rows, 10 * 1 + 10)"
    by blast
  with run n show ?thesis by simp
qed

text \<open>
  As stated, C1 fails. With the same draws, the same winery and the same year 2023, the
  density synthesized for Neuk\"olln is 0.0191 when the context holds Neuk\"olln alone and
  0.0196 when it also holds Prenzlauer Berg, which is processed first and takes the first
  ten draws.
\<close>

theorem noise_changes_with_regions_before_counterexample:
  "h_year (filter (\<lambda>r. h_district r = Neukoelln)
     (projr (simulate_historical_winery_development draws_high_then_low [winery_in_neukoelln]
        [Neukoelln \<mapsto> context_neukoelln])) ! 9) = 2023 \<and>
   h_density (filter (\<lambda>r. h_district r = Neukoelln)
     (projr (simulate_historical_winery_development draws_high_then_low [winery_in_neukoelln]
        [Neukoelln \<mapsto> context_neukoelln])) ! 9) = 0.0191 \<and>
   h_year (filter (\<lambda>r. h_district r = Neukoelln)
     (projr (simulate_historical_winery_development draws_high_then_low [winery_in_neukoelln]
        [Neukoelln \<mapsto> context_neukoelln, ''Prenzlauer Berg'' \<mapsto> context_prenzlauer_berg])) ! 9) = 2023 \<and>
   h_density (filter (\<lambda>r. h_district r = Neukoelln)
     (projr (simulate_historical_winery_development draws_high_then_low [winery_in_neukoelln]
        [Neukoelln \<mapsto> context_neukoelln, ''Prenzlauer Berg'' \<mapsto> context_prenzlauer_berg])) ! 9) = 0.0196"
proof -
  let ?df = "assign_districts_to_wineries [winery_in_neukoelln]"
  let ?ds = get_district_boundaries_and_areas
  let ?A = "[Neukoelln \<mapsto> context_neukoelln]"
  let ?B = "[Neukoelln \<mapsto> context_neukoelln, ''Prenzlauer Berg'' \<mapsto> context_prenzlauer_berg]"
  have i: "1 < length ?ds" by (simp add: get_district_boundaries_and_areas_def)
  have n: "fst (?ds ! 1) = Neukoelln" by (simp add: catalog_second)
  have cA: "?A (fst (?ds ! 1)) = Some context_neukoelln" unfolding n by simp
  have cB: "?B (fst (?ds ! 1)) = Some context_neukoelln" unfolding n by (simp add: Neukoelln_def)
  have pA: "length (filter (\<lambda>e. ?A (fst e) \<noteq> None) (take 1 ?ds)) = 0"
    by (simp add: get_district_boundaries_and_areas_def Neukoelln_def)
  have pB: "length (filter (\<lambda>e. ?B (fst e) \<noteq> None) (take 1 ?ds)) = 1"
    by (simp add: get_district_boundaries_and_areas_def)
  from simulate_total [OF example_contexts_total(1,3)] obtain rowsA where
    runA: "simulate_historical_winery_development draws_high_then_low [winery_in_neukoelln] ?A = Inr rowsA"
    by blast
  from simulate_total [OF example_contexts_total(2,3)] obtain rowsB where
    runB: "simulate_historical_winery_development draws_high_then_low [winery_in_neukoelln] ?B = Inr rowsB"
    by blast
  from runA obtain kA where
    simA: "simulate_districts draws_high_then_low ?df ?A ?ds 0 = Inr (rowsA, kA)"
    by (auto simp: simulate_historical_winery_development_def Let_def split: sum.splits)
  from runB obtain kB where
    simB: "simulate_districts draws_high_then_low ?df ?B ?ds 0 = Inr (rowsB, kB)"
    by (auto simp: simulate_historical_winery_development_def Let_def split: sum.splits)
  from simulate_districts_block [OF simA i cA catalog_distinct]
  have blockA: "district_history draws_high_then_low ?df (?ds ! 1) context_neukoelln 0
      = Inr (filter (\<lambda>r. h_district r = Neukoelln) rowsA, 10)"
    unfolding pA n by simp
  from simulate_districts_block [OF simB i cB catalog_distinct]
  have blockB: "district_history draws_high_then_low ?df (?ds ! 1) context_neukoelln 10
      = Inr (filter (\<lambda>r. h_district r = Neukoelln) rowsB, 20)"
    unfolding pB n by simp
  have zA: "draws_high_then_low 0 = 1" and zB: "draws_high_then_low 10 = - 1"
    by (simp_all add: draws_high_then_low_def)
  have "py_round (max 0 (10 / 449 / (1 + 0.15 * (1 + 0.1 * 1)))) 4 = of_int 191 / 10 ^ 4"
    by (rule py_round_eqI) simp_all
  then have rA: "py_round (max 0 (10 / 449 / (1 + 0.15 * (1 + 0.1 * 1)))) 4 = 0.0191"
    by simp
  have "py_round (max 0 (10 / 449 / (1 + 0.15 * (1 + 0.1 * (- 1))))) 4 = of_int 196 / 10 ^ 4"
    by (rule py_round_eqI) simp_all
  then have rB: "py_round (max 0 (10 / 449 / (1 + 0.15 * (1 + 0.1 * (- 1))))) 4 = 0.0196"
    by simp
  from neukoelln_2023_row [OF blockA] zA rA
  have a: "h_year (filter (\<lambda>r. h_district r = Neukoelln) rowsA ! 9) = 2023 \<and>
           h_density (filter (\<lambda>r. h_district r = Neukoelln) rowsA ! 9) = 0.0191"
    by simp
  from neukoelln_2023_row [OF blockB] zB rB
  have b: "h_year (filter (\<lambda>r. h_district r = Neukoelln) rowsB ! 9) = 2023 \<and>
           h_density (filter (\<lambda>r. h_district r = Neukoelln) rowsB ! 9) = 0.0196"
    by simp
  from a b show ?thesis by (simp add: runA runB)
qed

section \<open>The synthesized value of an earlier year\<close>







section \<open>Properties of the growth metrics\<close>

lemma ne_empty_if_in: "x \<in> S \<Longrightarrow> S \<noteq> {}"
  by auto

lemma set_unique: "set (unique xs) = set xs"
  by (induction xs rule: unique.induct) auto

lemma m_district_metrics: "m_district (district_metrics d first rest) = d"
  by (simp add: district_metrics_def Let_def)

lemma metrics_loop_districts:
  "set (map m_district (metrics_loop historical_df ds))
     = {d \<in> set ds. 2 \<le> length (filter (\<lambda>r. h_district r = d) historical_df)}"
proof (induction ds)
  case Nil
  then show ?case by simp
next
  case (Cons d ds)
  let ?data = "sort_key h_year (filter (\<lambda>r. h_district r = d) historical_df)"
  have len: "length ?data = length (filter (\<lambda>r. h_district r = d) historical_df)" by simp
  show ?case
  proof (cases "2 \<le> length ?data")
    case True
    then obtain first second rest where data: "?data = first # second # rest"
      by (cases ?data; cases "tl ?data") auto
    from True len have "2 \<le> length (filter (\<lambda>r. h_district r = d) historical_df)" by simp
    with Cons.IH show ?thesis by (auto simp: data m_district_metrics)
  next
    case False
    then have short: "?data = [] \<or> (\<exists>r. ?data = [r])"
      by (cases ?data; cases "tl ?data") auto
    from False len have "\<not> 2 \<le> length (filter (\<lambda>r. h_district r = d) historical_df)" by simp
    with Cons.IH short show ?thesis by auto
  qed
qed

text \<open>
  Claim C6, amended. A series with fewer than two points is skipped: whenever some series
  of the frame has at least two points, the step returns its table normally, and the table
  has a summary for exactly the districts with at least two points. The short series gets
  no row, so no fabricated growth, and nothing reports that it was left out.
\<close>

theorem short_series_are_skipped_without_signal:
  assumes "2 \<le> length (filter (\<lambda>r. h_district r = d0) historical_df)"
  shows "\<exists>ms. calculate_growth_metrics historical_df = Inr ms \<and>
           set (map m_district ms)
             = {d. 2 \<le> length (filter (\<lambda>r. h_district r = d) historical_df)}"
proof -
  let ?loop = "metrics_loop historical_df (unique (map h_district historical_df))"
  have long: "2 \<le> length (filter (\<lambda>r. h_district r = d) historical_df)
                \<Longrightarrow> d \<in> set (map h_district historical_df)" for d
  proof -
    assume "2 \<le> length (filter (\<lambda>r. h_district r = d) historical_df)"
    then have "filter (\<lambda>r. h_district r = d) historical_df \<noteq> []" by auto
    then obtain r where "r \<in> set historical_df" and "h_district r = d"
      by (auto simp: filter_empty_conv)
    then show ?thesis by auto
  qed
  have names: "set (map m_district ?loop)
      = {d. 2 \<le> length (filter (\<lambda>r. h_district r = d) historical_df)}"
    unfolding metrics_loop_districts set_unique using long by blast
  from assms have "d0 \<in> {d. 2 \<le> length (filter (\<lambda>r. h_district r = d) historical_df)}"
    by simp
  then have "set (map m_district ?loop) \<noteq> {}" unfolding names by (rule ne_empty_if_in)
  then obtain m ms where loop: "?loop = m # ms" by (cases ?loop) auto
  then have run: "calculate_growth_metrics historical_df = Inr (sort_key (\<lambda>m. - cagr m) (m # ms))"
    by (simp add: calculate_growth_metrics_def)
  have "set (sort_key (\<lambda>m. - cagr m) (m # ms)) = set (m # ms)" by (rule set_sort)
  then have "set (map m_district (sort_key (\<lambda>m. - cagr m) (m # ms))) = set (map m_district ?loop)"
    unfolding loop set_map by (rule arg_cong)
  with names run show ?thesis by simp
qed

lemma frame_counts:
  "length (filter (\<lambda>r. h_district r = ''A'') short_and_long_frame) = 1"
  "length (filter (\<lambda>r. h_district r = ''B'') short_and_long_frame) = 2"
  by (simp_all add: short_and_long_frame_def frame_row_def)

text \<open>In the worked frame district B has a summary and district A, with one row, has none.\<close>

theorem short_series_are_skipped_without_signal_witness:
  "\<exists>ms. calculate_growth_metrics short_and_long_frame = Inr ms \<and>
     ''B'' \<in> set (map m_district ms) \<and> ''A'' \<notin> set (map m_district ms)"
proof -
  have "2 \<le> length (filter (\<lambda>r. h_district r = ''B'') short_and_long_frame)"
    by (simp add: frame_counts)
  from short_series_are_skipped_without_signal [OF this] obtain ms where
    run: "calculate_growth_metrics short_and_long_frame = Inr ms"
    and names: "set (map m_district ms)
             = {d. 2 \<le> length (filter (\<lambda>r. h_district r = d) short_and_long_frame)}"
    by blast
  have "''B'' \<in> set (map m_district ms)" unfolding names by (simp add: frame_counts)
  moreover have "''A'' \<notin> set (map m_district ms)" unfolding names by (simp add: frame_counts)
  ultimately show ?thesis using run by blast
qed

lemma worked_frame_loop:
  "metrics_loop short_and_long_frame (unique (map h_district short_and_long_frame))
     = [district_metrics ''B'' (frame_row ''B'' 2023 1.0 0.0) [frame_row ''B'' 2024 1.1 0.1]]"
  by (simp add: short_and_long_frame_def frame_row_def)

text \<open>
  As stated, C6 fails: on the worked frame the step returns a table with the one row of
  district B and signals nothing about district A.
\<close>

theorem short_series_omitted_silently_counterexample:
  "map_sum id (map m_district) (calculate_growth_metrics short_and_long_frame) = Inr [''B'']"
  by (simp add: calculate_growth_metrics_def worked_frame_loop m_district_metrics)

text \<open>
  Claim C7 against the code. District B of the worked frame has the rates 0.0 (the
  placeholder of its first year) and 0.1. The mean of the rates without the first entry is
  0.1; the reported average is 0.05, the mean over both entries.
\<close>

theorem average_growth_counts_first_year_placeholder:
  "map_sum id (map avg_annual_growth) (calculate_growth_metrics short_and_long_frame) = Inr [0.05] \<and>
   mean (tl (map yoy_growth_rate (filter (\<lambda>r. h_district r = ''B'') short_and_long_frame))) = 0.1"
  by (simp add: calculate_growth_metrics_def worked_frame_loop district_metrics_def Let_def
        mean_def frame_row_def short_and_long_frame_def py_round_def round_half_even_def)

end
